theory Spec2Isabelle
  imports Main "HOL-Library.Multiset" "HOL-Library.Char_ord" "HOL-Library.List_Lexorder"
begin

section \<open>Relay credential issuer (turn/server.go)\<close>

text \<open>
  A \<open>net.IP\<close> is represented by its textual form (\<open>ip.String()\<close>); the nil address is
  \<open>None\<close>. Byte slices and Go strings are both \<open>string\<close>.
\<close>

type_synonym IP = "string option"

record Entry =
  addr :: IP
  password :: string

record InternalServer =
  lookup :: "string \<rightharpoonup> Entry"

record ExternalServer =
  secret :: string
  ttl :: int

definition Realm :: string where
  "Realm = ''screego''"

text \<open>
  Functions of libraries outside the repository are parameters of the model:
  \<open>turn.GenerateAuthKey\<close> (pion/turn), the keyed hash \<open>hmac.New(sha1.New, key)\<close> applied to
  a message, and \<open>base64.StdEncoding.EncodeToString\<close>.
\<close>

record Lib =
  GenerateAuthKey :: "string \<Rightarrow> string \<Rightarrow> string \<Rightarrow> string"
  hmac_sha1 :: "string \<Rightarrow> string \<Rightarrow> string"
  base64 :: "string \<Rightarrow> string"

text \<open>
  What one call of \<open>Credentials\<close> draws from its environment: the result of
  \<open>util.RandString(20)\<close> and the reading of \<open>time.Now()\<close>, in nanoseconds since the epoch.
  A \<open>time.Duration\<close> is a number of nanoseconds.
\<close>

record Draw =
  RandString :: string
  Now :: int

definition Hour :: int where
  "Hour = 3600 * 1000000000"

definition Time_Unix :: "int \<Rightarrow> int" where
  "Time_Unix t = t div 1000000000"

fun digits :: "nat \<Rightarrow> string" where
  "digits n = (if n < 10 then [''0123456789'' ! n]
               else digits (n div 10) @ [''0123456789'' ! (n mod 10)])"

declare digits.simps [simp del]

definition fmt_d :: "int \<Rightarrow> string" where
  \<comment> \<open>\<open>fmt.Sprintf("%d", n)\<close>\<close>
  "fmt_d n = (if n < 0 then CHR ''-'' # digits (nat (- n)) else digits (nat n))"

definition allow :: "Lib \<Rightarrow> InternalServer \<Rightarrow> string \<Rightarrow> string \<Rightarrow> IP \<Rightarrow> InternalServer" where
  "allow lib a username pw ip =
     a\<lparr>lookup := (lookup a)(username \<mapsto>
          \<lparr>addr = ip, password = GenerateAuthKey lib username Realm pw\<rparr>)\<rparr>"

definition InternalServer_Disallow :: "InternalServer \<Rightarrow> string \<Rightarrow> InternalServer" where
  "InternalServer_Disallow a username = a\<lparr>lookup := (lookup a)(username := None)\<rparr>"

definition ExternalServer_Disallow :: "ExternalServer \<Rightarrow> string \<Rightarrow> ExternalServer" where
  "ExternalServer_Disallow a username = a"

text \<open>
  \<open>authenticate\<close> returns the stored key and \<open>true\<close>, or \<open>nil\<close> (the empty slice) and
  \<open>false\<close>. Its \<open>realm\<close> and \<open>addr\<close> arguments are only logged.
\<close>

definition authenticate :: "InternalServer \<Rightarrow> string \<Rightarrow> string \<Rightarrow> string \<Rightarrow> string \<times> bool" where
  "authenticate a username realm requester =
     (case lookup a username of
        None \<Rightarrow> ([], False)
      | Some entry \<Rightarrow> (password entry, True))"

definition InternalServer_Credentials ::
  "Lib \<Rightarrow> Draw \<Rightarrow> InternalServer \<Rightarrow> string \<Rightarrow> IP \<Rightarrow> (string \<times> string) \<times> InternalServer" where
  "InternalServer_Credentials lib d a ident ip =
     (let pw = RandString d in ((ident, pw), allow lib a ident pw ip))"

definition ExternalServer_Credentials ::
  "Lib \<Rightarrow> Draw \<Rightarrow> ExternalServer \<Rightarrow> string \<Rightarrow> IP \<Rightarrow> string \<times> string" where
  "ExternalServer_Credentials lib d a ident ip =
     (let username = fmt_d (Time_Unix (Now d + ttl a)) @ '':'' @ ident;
          pw = base64 lib (hmac_sha1 lib (secret a) username)
      in (username, pw))"

definition newExternalServer :: "string \<Rightarrow> ExternalServer" where
  "newExternalServer TurnExternalSecret = \<lparr>secret = TurnExternalSecret, ttl = 24 * Hour\<rparr>"

text \<open>The interface \<open>turn.Server\<close> with its two implementations.\<close>

datatype Server = Internal InternalServer | External ExternalServer

fun Credentials :: "Lib \<Rightarrow> Draw \<Rightarrow> Server \<Rightarrow> string \<Rightarrow> IP \<Rightarrow> (string \<times> string) \<times> Server" where
  "Credentials lib d (Internal a) ident ip =
     (case InternalServer_Credentials lib d a ident ip of (c, a') \<Rightarrow> (c, Internal a'))"
| "Credentials lib d (External a) ident ip =
     (ExternalServer_Credentials lib d a ident ip, External a)"

fun Disallow :: "Server \<Rightarrow> string \<Rightarrow> Server" where
  "Disallow (Internal a) username = Internal (InternalServer_Disallow a username)"
| "Disallow (External a) username = External (ExternalServer_Disallow a username)"

section \<open>Rooms, users and sessions (package ws)\<close>

text \<open>
  An \<open>xid.ID\<close> is represented by its textual form, so \<open>id.String()\<close> is the identity and
  \<open>bytes.Equal(a.Bytes(), b.Bytes())\<close> is equality. A channel is named by a number. The
  Prometheus counters, which the code only increments, are not part of the state.
\<close>

type_synonym xid = string
type_synonym chan = nat

definition xid_String :: "xid \<Rightarrow> string" where
  "xid_String i = i"

text \<open>
  \<open>ConnectionMode\<close> is a string type with three named values. The third is
  \<open>config.AuthModeTurn\<close>, whose declaration is not among the sources.
\<close>

type_synonym ConnectionMode = string

definition ConnectionLocal :: ConnectionMode where
  "ConnectionLocal = ''local''"

definition ConnectionSTUN :: ConnectionMode where
  "ConnectionSTUN = ''stun''"

text \<open>
  Modelled from the spec: the constant \<open>config.AuthModeTurn\<close>. The specification names the
  three modes local, stun and turn.
\<close>

definition ConnectionTURN :: ConnectionMode where
  "ConnectionTURN = ''turn''"

text \<open>
  The messages of package \<open>outgoing\<close>, whose declarations are not among the sources, as the
  code builds them: \<open>HostSession\<close> and \<open>ClientSession\<close> carry \<open>Peer\<close>, \<open>ID\<close> and
  \<open>ICEServers\<close>, \<open>RoomMsg\<close> is \<open>outgoing.Room{ID, Users}\<close>, the four relay messages are
  conversions of one \<open>P2PMessage\<close>.
\<close>

record ICEServer =
  URLs :: "string list"
  Credential :: string
  Username :: string

record OutUser =
  out_ID :: xid
  out_Name :: string
  out_Streaming :: bool
  You :: bool
  out_Owner :: bool

record P2PMessage =
  SID :: xid
  Value :: string

datatype Message =
    HostSession xid xid "ICEServer list"
  | ClientSession xid xid "ICEServer list"
  | RoomMsg string "OutUser list"
  | EndShare xid
  | HostOffer P2PMessage
  | HostICE P2PMessage
  | ClientAnswer P2PMessage
  | ClientICE P2PMessage
  | CloseWriter int string

record User =
  ID :: xid
  Addr :: IP
  Name :: string
  Streaming :: bool
  Owner :: bool
  u_write :: chan

record RoomSession =
  Host :: xid
  Client :: xid

record Room =
  Room_ID :: string
  CloseOnOwnerLeave :: bool
  Mode :: ConnectionMode
  Users :: "xid \<rightharpoonup> User"
  Sessions :: "xid \<rightharpoonup> RoomSession"

text \<open>
  The state of the Hub: the fields of \<open>Rooms\<close> that the handlers use, \<open>config.TurnPort\<close>,
  and \<open>writes\<close>, the log of the calls of \<open>WriteTimeout\<close> (channel and message) in the order
  they are made.
\<close>

record Rooms =
  turnServer :: Server
  Rooms :: "string \<rightharpoonup> Room"
  connected :: "xid \<rightharpoonup> string"
  TurnPort :: string
  writes :: "(chan \<times> Message) list"

record ClientInfo =
  Client_ID :: xid
  Authenticated :: bool
  AuthenticatedUser :: string
  Write :: chan
  Client_Addr :: IP

text \<open>
  A \<open>range\<close> over a Go map visits the keys in an order the language leaves open; the order
  is an input of the model. A key is visited only if it is in the map when its turn comes.
  \<open>ks\<close> is an iteration order of \<open>m\<close> when it lists the keys of \<open>m\<close> once each.
\<close>

definition range_map :: "('k \<rightharpoonup> 'v) \<Rightarrow> 'k list \<Rightarrow> ('k \<times> 'v) list" where
  "range_map m ks = List.map_filter (\<lambda>k. map_option (Pair k) (m k)) ks"

definition iteration_order :: "('k \<rightharpoonup> 'v) \<Rightarrow> 'k list \<Rightarrow> bool" where
  "iteration_order m ks \<longleftrightarrow> distinct ks \<and> set ks = dom m"

definition WriteTimeout :: "User \<Rightarrow> Message \<Rightarrow> Rooms \<Rightarrow> Rooms" where
  "WriteTimeout u msg rooms = rooms\<lparr>writes := writes rooms @ [(u_write u, msg)]\<rparr>"

definition addresses :: "Rooms \<Rightarrow> string \<Rightarrow> IP \<Rightarrow> IP \<Rightarrow> bool \<Rightarrow> string list" where
  "addresses r prefix v4 v6 tcp =
     (case v4 of
        None \<Rightarrow> []
      | Some a \<Rightarrow>
          [prefix @ '':'' @ a @ '':'' @ TurnPort r]
          @ (if tcp then [prefix @ '':'' @ a @ '':'' @ TurnPort r @ ''?transport=tcp''] else []))
     @ (case v6 of
        None \<Rightarrow> []
      | Some a \<Rightarrow>
          [prefix @ '':['' @ a @ '']:'' @ TurnPort r]
          @ (if tcp then [prefix @ '':['' @ a @ '']:'' @ TurnPort r @ ''?transport=tcp''] else []))"

text \<open>
  What one call of \<open>newSession\<close> draws: the result of \<open>xid.New()\<close> and the draws of the two
  calls of \<open>Credentials\<close>.
\<close>

record SessionDraw =
  new_xid :: xid
  host_draw :: Draw
  client_draw :: Draw

text \<open>
  A \<open>*Room\<close> is modelled by the room it points to: a method of \<open>Room\<close> takes the room and
  returns it updated, and the handler stores it back under the key it was read from.
  \<open>newSession\<close> returns \<open>None\<close> where the code panics: \<open>r.Users[host]\<close> or
  \<open>r.Users[client]\<close> is a nil pointer when the id is not a key of the map.
\<close>

definition newSession ::
  "Lib \<Rightarrow> SessionDraw \<Rightarrow> Room \<Rightarrow> xid \<Rightarrow> xid \<Rightarrow> Rooms \<Rightarrow> IP \<Rightarrow> IP \<Rightarrow> (Rooms \<times> Room) option" where
  "newSession lib d r host client rooms v4 v6 =
     (let sid = new_xid d;
          r1 = r\<lparr>Sessions := (Sessions r)(sid \<mapsto> \<lparr>Host = host, Client = client\<rparr>)\<rparr>
      in case (Users r1 host, Users r1 client) of
           (Some hu, Some cu) \<Rightarrow>
             if Mode r1 = ConnectionLocal
             then Some (WriteTimeout cu (ClientSession host sid [])
                         (WriteTimeout hu (HostSession client sid []) rooms), r1)
             else if Mode r1 = ConnectionSTUN
             then (let iceHost = [\<lparr>URLs = addresses rooms ''stun'' v4 v6 False,
                                   Credential = [], Username = []\<rparr>];
                       iceClient = [\<lparr>URLs = addresses rooms ''stun'' v4 v6 False,
                                     Credential = [], Username = []\<rparr>]
                   in Some (WriteTimeout cu (ClientSession host sid iceClient)
                             (WriteTimeout hu (HostSession client sid iceHost) rooms), r1))
             else if Mode r1 = ConnectionTURN
             then (case Credentials lib (host_draw d) (turnServer rooms)
                          (xid_String sid @ ''host'') (Addr hu) of
                     ((hostName, hostPW), srv1) \<Rightarrow>
                  (case Credentials lib (client_draw d) srv1
                          (xid_String sid @ ''client'') (Addr cu) of
                     ((clientName, clientPW), srv2) \<Rightarrow>
                  (let iceHost = [\<lparr>URLs = addresses rooms ''turn'' v4 v6 True,
                                   Credential = hostPW, Username = hostName\<rparr>];
                       iceClient = [\<lparr>URLs = addresses rooms ''turn'' v4 v6 True,
                                     Credential = clientPW, Username = clientName\<rparr>]
                   in Some (WriteTimeout cu (ClientSession host sid iceClient)
                             (WriteTimeout hu (HostSession client sid iceHost)
                               (rooms\<lparr>turnServer := srv2\<rparr>)), r1))))
             else Some (WriteTimeout cu (ClientSession host sid [])
                         (WriteTimeout hu (HostSession client sid []) rooms), r1)
         | _ \<Rightarrow> None)"

definition closeSession :: "Rooms \<Rightarrow> Room \<Rightarrow> xid \<Rightarrow> Rooms \<times> Room" where
  "closeSession rooms r sid =
     ((if Mode r = ConnectionTURN
       then rooms\<lparr>turnServer :=
              Disallow (Disallow (turnServer rooms) (xid_String sid @ ''host''))
                (xid_String sid @ ''client'')\<rparr>
       else rooms),
      r\<lparr>Sessions := (Sessions r)(sid := None)\<rparr>)"

text \<open>The loop \<open>for id := range room.Sessions { room.closeSession(r, id) }\<close>.\<close>

fun closeSessions :: "Rooms \<Rightarrow> Room \<Rightarrow> xid list \<Rightarrow> Rooms \<times> Room" where
  "closeSessions rooms r [] = (rooms, r)"
| "closeSessions rooms r (sid # ks) =
     (case Sessions r sid of
        None \<Rightarrow> closeSessions rooms r ks
      | Some _ \<Rightarrow> (case closeSession rooms r sid of (rooms', r') \<Rightarrow> closeSessions rooms' r' ks))"

definition closeRoom :: "xid list \<Rightarrow> Rooms \<Rightarrow> string \<Rightarrow> Rooms" where
  "closeRoom ks r roomID =
     (case Rooms r roomID of
        None \<Rightarrow> r
      | Some room \<Rightarrow>
          (case closeSessions r room ks of
             (r', room') \<Rightarrow> r'\<lparr>Rooms := (Rooms r')(roomID := None)\<rparr>))"

text \<open>
  The closure given to \<open>sort.Slice\<close> in \<open>notifyInfoChanged\<close>; Go compares strings byte by
  byte, as the lexicographic order on \<open>string\<close> does.
\<close>

definition less_users :: "OutUser \<Rightarrow> OutUser \<Rightarrow> bool" where
  "less_users left right =
     (if out_Owner left \<noteq> out_Owner right then out_Owner left
      else if out_Streaming left \<noteq> out_Streaming right then out_Streaming left
      else out_Name left < out_Name right)"

text \<open>
  \<open>sort.Slice\<close> is library code: it returns a permutation of the slice in which no element
  is less than an earlier one, and leaves open the order of elements that are tied. It is
  modelled by insertion sort.
\<close>

fun insert_by :: "('a \<Rightarrow> 'a \<Rightarrow> bool) \<Rightarrow> 'a \<Rightarrow> 'a list \<Rightarrow> 'a list" where
  "insert_by lt x [] = [x]"
| "insert_by lt x (y # ys) = (if lt x y then x # y # ys else y # insert_by lt x ys)"

definition sort_Slice :: "('a \<Rightarrow> 'a \<Rightarrow> bool) \<Rightarrow> 'a list \<Rightarrow> 'a list" where
  "sort_Slice lt xs = foldr (insert_by lt) xs []"

text \<open>
  The record \<open>outgoing.User\<close> that the copy of recipient \<open>c\<close> holds for the entry \<open>(k, user)\<close>
  of \<open>r.Users\<close>. \<open>current == user\<close> compares pointers; every key of the map has a \<open>User\<close>
  of its own, so the comparison is that of the keys.
\<close>

definition OutUser_of :: "xid \<Rightarrow> xid \<times> User \<Rightarrow> OutUser" where
  "OutUser_of c ku =
     \<lparr>out_ID = ID (snd ku), out_Name = Name (snd ku), out_Streaming = Streaming (snd ku),
      You = (c = fst ku), out_Owner = Owner (snd ku)\<rparr>"

definition snapshot :: "xid list \<Rightarrow> Room \<Rightarrow> xid \<Rightarrow> OutUser list" where
  "snapshot ks r c = sort_Slice less_users (map (OutUser_of c) (range_map (Users r) ks))"

definition notifyInfoChanged :: "xid list \<Rightarrow> (xid \<Rightarrow> xid list) \<Rightarrow> Room \<Rightarrow> Rooms \<Rightarrow> Rooms" where
  "notifyInfoChanged outer inner r rooms =
     fold (\<lambda>(c, current). WriteTimeout current (RoomMsg (Room_ID r) (snapshot (inner c) r c)))
       (range_map (Users r) outer) rooms"

text \<open>
  A handler returns \<open>nil\<close> (\<open>Ok\<close>) or an error, given by its text; \<open>Panic\<close> is the
  dereference of a nil pointer, which ends the process.
\<close>

datatype outcome = Ok | Error string | Panic

definition CurrentRoom :: "Rooms \<Rightarrow> ClientInfo \<Rightarrow> string + Room" where
  "CurrentRoom r info =
     (case connected r (Client_ID info) of
        None \<Rightarrow> Inl ''not connected''
      | Some roomID \<Rightarrow>
          if roomID = [] then Inl ''not in a room''
          else (case Rooms r roomID of
                  None \<Rightarrow> Inl (''room with id '' @ roomID @ '' does not exist'')
                | Some room \<Rightarrow> Inr room))"

definition HostOffer_Execute :: "P2PMessage \<Rightarrow> Rooms \<Rightarrow> ClientInfo \<Rightarrow> outcome \<times> Rooms" where
  "HostOffer_Execute e rooms current =
     (case CurrentRoom rooms current of
        Inl err \<Rightarrow> (Error err, rooms)
      | Inr room \<Rightarrow>
          (case Sessions room (SID e) of
             None \<Rightarrow> (Ok, rooms)
           | Some session \<Rightarrow>
               if Host session \<noteq> Client_ID current
               then (Error (''permission denied for session '' @ xid_String (SID e)), rooms)
               else (case Users room (Client session) of
                       None \<Rightarrow> (Panic, rooms)
                     | Some u \<Rightarrow> (Ok, WriteTimeout u (HostOffer e) rooms))))"

definition HostICE_Execute :: "P2PMessage \<Rightarrow> Rooms \<Rightarrow> ClientInfo \<Rightarrow> outcome \<times> Rooms" where
  "HostICE_Execute e rooms current =
     (case CurrentRoom rooms current of
        Inl err \<Rightarrow> (Error err, rooms)
      | Inr room \<Rightarrow>
          (case Sessions room (SID e) of
             None \<Rightarrow> (Ok, rooms)
           | Some session \<Rightarrow>
               if Host session \<noteq> Client_ID current
               then (Error (''permission denied for session '' @ xid_String (SID e)), rooms)
               else (case Users room (Client session) of
                       None \<Rightarrow> (Panic, rooms)
                     | Some u \<Rightarrow> (Ok, WriteTimeout u (HostICE e) rooms))))"

definition ClientAnswer_Execute :: "P2PMessage \<Rightarrow> Rooms \<Rightarrow> ClientInfo \<Rightarrow> outcome \<times> Rooms" where
  "ClientAnswer_Execute e rooms current =
     (case CurrentRoom rooms current of
        Inl err \<Rightarrow> (Error err, rooms)
      | Inr room \<Rightarrow>
          (case Sessions room (SID e) of
             None \<Rightarrow> (Ok, rooms)
           | Some session \<Rightarrow>
               if Client session \<noteq> Client_ID current
               then (Error (''permission denied for session '' @ xid_String (SID e)), rooms)
               else (case Users room (Host session) of
                       None \<Rightarrow> (Panic, rooms)
                     | Some u \<Rightarrow> (Ok, WriteTimeout u (ClientAnswer e) rooms))))"

text \<open>
  What the execution of one event takes from outside the Hub: the result of
  \<open>RandUserName()\<close>, the result of \<open>config.TurnIPProvider.Get()\<close> (an error text, or the
  IPv4 and the IPv6 address), the iteration orders of the loops over \<open>room.Users\<close> and
  \<open>room.Sessions\<close>, and the draws of the call of \<open>newSession\<close> made at each key.
\<close>

record Env =
  RandUserName :: string
  TurnIPProvider_Get :: "string + IP \<times> IP"
  notify_outer :: "xid list"
  notify_inner :: "xid \<Rightarrow> xid list"
  users_order :: "xid list"
  sessions_order :: "xid list"
  draws :: "xid \<Rightarrow> SessionDraw"

record Join =
  Join_ID :: string
  UserName :: string

text \<open>Reading a Go map of strings at a missing key gives the empty string.\<close>

definition connected_at :: "Rooms \<Rightarrow> xid \<Rightarrow> string" where
  "connected_at rooms i = (case connected rooms i of None \<Rightarrow> [] | Some roomID \<Rightarrow> roomID)"

text \<open>The room behind the pointer read from \<open>rooms.Rooms[key]\<close>, stored back.\<close>

definition put_room :: "string \<Rightarrow> Room \<Rightarrow> Rooms \<Rightarrow> Rooms" where
  "put_room key room rooms = rooms\<lparr>Rooms := (Rooms rooms)(key \<mapsto> room)\<rparr>"

text \<open>The loop of \<open>Join.Execute\<close> over \<open>room.Users\<close>, which opens the sessions.\<close>

fun join_sessions ::
  "Lib \<Rightarrow> Env \<Rightarrow> ClientInfo \<Rightarrow> IP \<Rightarrow> IP \<Rightarrow> Rooms \<Rightarrow> Room \<Rightarrow> xid list \<Rightarrow> (Rooms \<times> Room) option" where
  "join_sessions lib env current v4 v6 rooms room [] = Some (rooms, room)"
| "join_sessions lib env current v4 v6 rooms room (k # ks) =
     (case Users room k of
        None \<Rightarrow> join_sessions lib env current v4 v6 rooms room ks
      | Some user \<Rightarrow>
          if Client_ID current = ID user \<or> \<not> Streaming user
          then join_sessions lib env current v4 v6 rooms room ks
          else (case newSession lib (draws env k) room (ID user) (Client_ID current) rooms v4 v6 of
                  None \<Rightarrow> None
                | Some (rooms', room') \<Rightarrow> join_sessions lib env current v4 v6 rooms' room' ks))"

definition Join_Execute :: "Lib \<Rightarrow> Env \<Rightarrow> Join \<Rightarrow> Rooms \<Rightarrow> ClientInfo \<Rightarrow> outcome \<times> Rooms" where
  "Join_Execute lib env e rooms current =
     (if connected_at rooms (Client_ID current) \<noteq> []
      then (Error ''cannot join room, you are already in one'', rooms)
      else (case Rooms rooms (Join_ID e) of
              None \<Rightarrow> (Error (''room with id '' @ Join_ID e @ '' does not exist''), rooms)
            | Some room \<Rightarrow>
                (let name = UserName e;
                     name = (if Authenticated current then AuthenticatedUser current else name);
                     name = (if name = [] then RandUserName env else name);
                     room1 = room\<lparr>Users := (Users room)(Client_ID current \<mapsto>
                               \<lparr>ID = Client_ID current, Addr = Client_Addr current, Name = name,
                                Streaming = False, Owner = False, u_write = Write current\<rparr>)\<rparr>;
                     rooms1 = rooms\<lparr>connected :=
                                (connected rooms)(Client_ID current \<mapsto> Room_ID room1)\<rparr>;
                     rooms2 = notifyInfoChanged (notify_outer env) (notify_inner env) room1 rooms1
                 in case TurnIPProvider_Get env of
                      Inl err \<Rightarrow> (Error err, put_room (Join_ID e) room1 rooms2)
                    | Inr (v4, v6) \<Rightarrow>
                        (case join_sessions lib env current v4 v6 rooms2 room1 (users_order env) of
                           None \<Rightarrow> (Panic, put_room (Join_ID e) room1 rooms2)
                         | Some (rooms3, room3) \<Rightarrow> (Ok, put_room (Join_ID e) room3 rooms3)))))"










section \<open>Timeouts (\<open>writeTimeout\<close>, \<open>Rooms.Count\<close>)\<close>

text \<open>
  Time is measured in nanoseconds from the start of the call, as \<open>time.Duration\<close> counts.
  A \<open>select\<close> runs the case that is ready first; when the send or receive becomes ready
  at the very instant the timer fires, Go picks either, and the pick is an input.
  How long the other side takes is an input too: \<open>None\<close> when it never acts.
\<close>

definition Second :: nat where
  "Second = 1000000000"

text \<open>
  \<open>writeTimeout(ch, msg)\<close>: \<open>accept\<close> is the time after which the channel takes the message.
  The result is the content of the channel, the warnings logged, and the time at which the
  call returns.
\<close>

definition write_warning :: string where
  "write_warning = ''Client write loop didn't accept the message.''"

definition writeTimeout ::
  "nat option \<Rightarrow> bool \<Rightarrow> 'a list \<Rightarrow> string list \<Rightarrow> 'a \<Rightarrow> 'a list \<times> string list \<times> nat" where
  "writeTimeout accept pick_send ch log msg =
     (case accept of
        None \<Rightarrow> (ch, log @ [write_warning], 2 * Second)
      | Some t \<Rightarrow>
          if t < 2 * Second \<or> (t = 2 * Second \<and> pick_send)
          then (ch @ [msg], log, t)
          else (ch, log @ [write_warning], 2 * Second))"

text \<open>
  \<open>Rooms.Count()\<close>: the one timer \<open>timeout := time.After(5 * time.Second)\<close> serves both
  \<open>select\<close> statements. \<open>accept\<close> is the time after which the Hub takes the probe from
  \<open>Incoming\<close>, \<open>reply\<close> the time the Hub then takes to put the count \<open>cnt\<close> into \<open>h.Response\<close>.
  The result is the pair that \<open>Count\<close> returns and the time at which it returns.
\<close>

definition Count ::
  "nat option \<Rightarrow> nat option \<Rightarrow> int \<Rightarrow> bool \<Rightarrow> bool \<Rightarrow> (int \<times> string) \<times> nat" where
  "Count accept reply cnt pick_send pick_recv =
     (let timeout = 5 * Second in
      case accept of
        None \<Rightarrow> ((- 1, ''main loop didn't accept a message within 5 second''), timeout)
      | Some a \<Rightarrow>
          if \<not> (a < timeout \<or> (a = timeout \<and> pick_send))
          then ((- 1, ''main loop didn't accept a message within 5 second''), timeout)
          else (case reply of
                  None \<Rightarrow> ((- 1, ''main loop didn't respond to a message within 5 second''), timeout)
                | Some d \<Rightarrow>
                    if a + d < timeout \<or> (a + d = timeout \<and> pick_recv)
                    then ((cnt, []), a + d)
                    else ((- 1, ''main loop didn't respond to a message within 5 second''),
                          timeout)))"

section \<open>Notions used in the statements\<close>

text \<open>
  For stating what closing sessions revokes: the two usernames of each session of a set, and
  a server from which exactly the entries of a set of usernames are gone. The external
  issuer keeps no entries.
\<close>

definition session_usernames :: "xid set \<Rightarrow> string set" where
  "session_usernames S = (\<Union>sid\<in>S. {xid_String sid @ ''host'', xid_String sid @ ''client''})"

definition revoked :: "string set \<Rightarrow> Server \<Rightarrow> Server" where
  "revoked N srv =
     (case srv of
        Internal a \<Rightarrow> Internal (a\<lparr>lookup := lookup a |` (- N)\<rparr>)
      | External a \<Rightarrow> External a)"

text \<open>
  The order of the user list in the words of the specification: owner first, then
  streaming first, then name ascending.
\<close>

definition owner_streaming_name_le :: "OutUser \<Rightarrow> OutUser \<Rightarrow> bool" where
  "owner_streaming_name_le a b \<longleftrightarrow>
     (out_Owner a \<and> \<not> out_Owner b)
     \<or> (out_Owner a = out_Owner b \<and> out_Streaming a \<and> \<not> out_Streaming b)
     \<or> (out_Owner a = out_Owner b \<and> out_Streaming a = out_Streaming b \<and> out_Name a \<le> out_Name b)"

text \<open>The same order on the users of a room.\<close>

definition owner_streaming_name_first :: "User \<Rightarrow> User \<Rightarrow> bool" where
  "owner_streaming_name_first a b \<longleftrightarrow>
     (Owner a \<and> \<not> Owner b)
     \<or> (Owner a = Owner b \<and> Streaming a \<and> \<not> Streaming b)
     \<or> (Owner a = Owner b \<and> Streaming a = Streaming b \<and> Name a \<le> Name b)"

text \<open>The name that \<open>Join.Execute\<close> gives the new user.\<close>

definition join_name :: "Env \<Rightarrow> Join \<Rightarrow> ClientInfo \<Rightarrow> string" where
  "join_name env e current =
     (if Authenticated current \<and> AuthenticatedUser current \<noteq> [] then AuthenticatedUser current
      else if \<not> Authenticated current \<and> UserName e \<noteq> [] then UserName e
      else RandUserName env)"

definition joined_user :: "Env \<Rightarrow> Join \<Rightarrow> ClientInfo \<Rightarrow> User" where
  "joined_user env e current =
     \<lparr>ID = Client_ID current, Addr = Client_Addr current, Name = join_name env e current,
      Streaming = False, Owner = False, u_write = Write current\<rparr>"

text \<open>The members that stream, other than the sender, in the order the loop meets them.\<close>

definition streaming_peers :: "Room \<Rightarrow> xid \<Rightarrow> xid list \<Rightarrow> xid list" where
  "streaming_peers room sender ks =
     filter (\<lambda>k. case Users room k of None \<Rightarrow> False | Some u \<Rightarrow> k \<noteq> sender \<and> Streaming u) ks"

definition users_by_key :: "Room \<Rightarrow> bool" where
  "users_by_key room \<longleftrightarrow> (\<forall>k u. Users room k = Some u \<longrightarrow> ID u = k)"

text \<open>
  The messages and the entries of \<open>room.Sessions\<close> that the loop of \<open>Join.Execute\<close> adds
  for the streaming peers met in the order \<open>ks\<close>, the ICE servers of each being given.
\<close>

definition session_writes ::
  "Env \<Rightarrow> Room \<Rightarrow> ClientInfo \<Rightarrow> (xid \<Rightarrow> ICEServer list) \<Rightarrow> (xid \<Rightarrow> ICEServer list) \<Rightarrow> xid list
     \<Rightarrow> (chan \<times> Message) list" where
  "session_writes env room current iceH iceC ks =
     concat (map (\<lambda>k. case Users room k of
                         None \<Rightarrow> []
                       | Some hu \<Rightarrow>
                           [(u_write hu, HostSession (Client_ID current) (new_xid (draws env k)) (iceH k)),
                            (Write current, ClientSession k (new_xid (draws env k)) (iceC k))])
               (streaming_peers room (Client_ID current) ks))"

definition session_entries :: "Env \<Rightarrow> Room \<Rightarrow> ClientInfo \<Rightarrow> xid list \<Rightarrow> xid \<rightharpoonup> RoomSession" where
  "session_entries env room current ks =
     fold (\<lambda>k m. m(new_xid (draws env k) \<mapsto> \<lparr>Host = k, Client = Client_ID current\<rparr>))
       (streaming_peers room (Client_ID current) ks) (Sessions room)"

text \<open>
  Membership: \<open>i\<close> is a member of the room stored under \<open>k\<close>. The invariant of the Hub:
  every room is stored under its own id, which is not empty, every user under its own id,
  and the membership record of every member names the room it is in.
\<close>

definition member :: "Rooms \<Rightarrow> string \<Rightarrow> xid \<Rightarrow> bool" where
  "member r k i \<longleftrightarrow> (case Rooms r k of None \<Rightarrow> False | Some room \<Rightarrow> Users room i \<noteq> None)"


definition hub_inv :: "Rooms \<Rightarrow> bool" where
  "hub_inv r \<longleftrightarrow>
     (\<forall>k room. Rooms r k = Some room \<longrightarrow> Room_ID room = k \<and> k \<noteq> [] \<and> users_by_key room)
     \<and> (\<forall>k i. member r k i \<longrightarrow> connected r i = Some k)"


section \<open>Example values\<close>

definition ex_lib :: Lib where
  "ex_lib = \<lparr>GenerateAuthKey = (\<lambda>u r p. u @ '':'' @ r @ '':'' @ p),
              hmac_sha1 = (\<lambda>k m. k @ ''/'' @ m), base64 = (\<lambda>x. x)\<rparr>"

definition ex_host :: User where
  "ex_host = \<lparr>ID = ''h'', Addr = Some ''10.0.0.1'', Name = ''Bob'', Streaming = True,
               Owner = True, u_write = 1\<rparr>"

definition ex_client :: User where
  "ex_client = \<lparr>ID = ''c'', Addr = Some ''10.0.0.2'', Name = ''Amy'', Streaming = False,
                 Owner = False, u_write = 2\<rparr>"

definition ex_room :: "ConnectionMode \<Rightarrow> (xid \<rightharpoonup> RoomSession) \<Rightarrow> Room" where
  "ex_room m ss = \<lparr>Room_ID = ''r1'', CloseOnOwnerLeave = False, Mode = m,
                    Users = [''h'' \<mapsto> ex_host, ''c'' \<mapsto> ex_client], Sessions = ss\<rparr>"

definition ex_entry :: Entry where
  "ex_entry = \<lparr>addr = Some ''10.0.0.1'', password = ''key''\<rparr>"

definition ex_server :: Server where
  "ex_server = Internal \<lparr>lookup = [''s1host'' \<mapsto> ex_entry, ''s1client'' \<mapsto> ex_entry,
                                    ''other'' \<mapsto> ex_entry]\<rparr>"

definition ex_rooms :: "Server \<Rightarrow> (string \<rightharpoonup> Room) \<Rightarrow> Rooms" where
  "ex_rooms srv rs = \<lparr>turnServer = srv, Rooms = rs,
                   connected = [''h'' \<mapsto> ''r1'', ''c'' \<mapsto> ''r1''], TurnPort = ''3478'',
                   writes = []\<rparr>"

definition ex_draw :: "xid \<Rightarrow> SessionDraw" where
  "ex_draw sid = \<lparr>new_xid = sid, host_draw = \<lparr>RandString = ''pwH'', Now = 0\<rparr>,
                   client_draw = \<lparr>RandString = ''pwC'', Now = 0\<rparr>\<rparr>"

definition abc_users :: "xid \<rightharpoonup> User" where
  "abc_users =
     [''A'' \<mapsto> \<lparr>ID = ''A'', Addr = None, Name = ''Bob'', Streaming = True, Owner = True, u_write = 1\<rparr>,
      ''B'' \<mapsto> \<lparr>ID = ''B'', Addr = None, Name = ''Amy'', Streaming = True, Owner = False, u_write = 2\<rparr>,
      ''C'' \<mapsto> \<lparr>ID = ''C'', Addr = None, Name = ''Zoe'', Streaming = False, Owner = False, u_write = 3\<rparr>]"

definition abc_room :: Room where
  "abc_room = \<lparr>Room_ID = ''r1'', CloseOnOwnerLeave = False, Mode = ConnectionLocal,
                Users = abc_users, Sessions = Map.empty\<rparr>"

definition osi_users :: "xid \<rightharpoonup> User" where
  "osi_users =
     [''O'' \<mapsto> \<lparr>ID = ''O'', Addr = None, Name = ''Zed'', Streaming = False, Owner = True, u_write = 1\<rparr>,
      ''S'' \<mapsto> \<lparr>ID = ''S'', Addr = None, Name = ''Mia'', Streaming = True, Owner = False, u_write = 2\<rparr>,
      ''I'' \<mapsto> \<lparr>ID = ''I'', Addr = None, Name = ''Amy'', Streaming = False, Owner = False, u_write = 3\<rparr>]"

definition osi_room :: Room where
  "osi_room = \<lparr>Room_ID = ''r2'', CloseOnOwnerLeave = False, Mode = ConnectionLocal,
                Users = osi_users, Sessions = Map.empty\<rparr>"

definition ex_hub :: Rooms where
  "ex_hub = \<lparr>turnServer = ex_server,
             Rooms = [''r1'' \<mapsto> ex_room ConnectionTURN [''s1'' \<mapsto> \<lparr>Host = ''h'', Client = ''c''\<rparr>]],
             connected = [''h'' \<mapsto> ''r1'', ''c'' \<mapsto> ''r1'', ''n'' \<mapsto> []],
             TurnPort = ''3478'', writes = []\<rparr>"

definition ex_info :: "xid \<Rightarrow> ClientInfo" where
  "ex_info i = \<lparr>Client_ID = i, Authenticated = False, AuthenticatedUser = [], Write = 9,
                Client_Addr = Some ''10.0.0.9''\<rparr>"

definition ex_env :: "string + IP \<times> IP \<Rightarrow> Env" where
  "ex_env ips = \<lparr>RandUserName = ''Happy Otter'', TurnIPProvider_Get = ips,
                 notify_outer = [''n'', ''h'', ''c''], notify_inner = (\<lambda>c. [''c'', ''n'', ''h'']),
                 users_order = [''c'', ''h'', ''n''], sessions_order = [''s1'', ''s-h''],
                 draws = (\<lambda>k. ex_draw (''s-'' @ k))\<rparr>"




section \<open>Properties of the credential issuer\<close>

text \<open>
  C10. The authentication callback of the co-located issuer looks credentials up by
  username only: after \<open>Credentials(id, addr)\<close> the entry of \<open>id\<close> stores \<open>addr\<close>, and
  \<open>authenticate\<close> returns the derived key with \<open>true\<close> for every requester address, the
  stored address being never compared; an unknown username is rejected.
\<close>

theorem authenticate_ignores_address:
  "lookup (snd (InternalServer_Credentials lib d a ident ip)) ident
     = Some \<lparr>addr = ip, password = GenerateAuthKey lib ident Realm (RandString d)\<rparr>
   \<and> authenticate (snd (InternalServer_Credentials lib d a ident ip)) ident realm requester
     = (GenerateAuthKey lib ident Realm (RandString d), True)
   \<and> authenticate a' username realm requester = authenticate a' username realm' requester'
   \<and> (snd (authenticate a' username realm requester) \<longleftrightarrow> username \<in> dom (lookup a'))"
  by (auto simp: InternalServer_Credentials_def allow_def authenticate_def Let_def
      split: option.splits)

text \<open>
  C5. Under a fixed clock the external issuer returns the username
  \<open>"<unixExpirySeconds>:<id>"\<close>, the expiry being the clock plus the TTL, and as password
  the base64 encoding of the keyed hash of that very username under the shared secret:
  recomputing the signature over the returned username gives the returned password.
\<close>

theorem external_credentials_roundtrip:
  "fst (ExternalServer_Credentials lib d a ident ip)
     = fmt_d (Time_Unix (Now d + ttl a)) @ '':'' @ ident
   \<and> snd (ExternalServer_Credentials lib d a ident ip)
     = base64 lib (hmac_sha1 lib (secret a) (fst (ExternalServer_Credentials lib d a ident ip)))
   \<and> ExternalServer_Credentials lib \<lparr>RandString = r, Now = 1700000000123456789\<rparr>
         (newExternalServer ''s3cr3t'') ''abc'' ip
     = (''1700086400:abc'', base64 lib (hmac_sha1 lib ''s3cr3t'' ''1700086400:abc''))"
proof -
  have d: "digits 1700086400 = ''1700086400''"
    by (simp add: digits.simps)
  have "fmt_d (Time_Unix (1700000000123456789 + 24 * Hour)) = ''1700086400''"
    by (simp add: fmt_d_def Time_Unix_def Hour_def d)
  then show ?thesis
    by (simp add: ExternalServer_Credentials_def newExternalServer_def Let_def)
qed

section \<open>Sessions and rooms\<close>

lemma mode_distinct [simp]:
  "ConnectionLocal \<noteq> ConnectionSTUN" "ConnectionLocal \<noteq> ConnectionTURN"
  "ConnectionSTUN \<noteq> ConnectionTURN" "ConnectionSTUN \<noteq> ConnectionLocal"
  "ConnectionTURN \<noteq> ConnectionLocal" "ConnectionTURN \<noteq> ConnectionSTUN"
  by (simp_all add: ConnectionLocal_def ConnectionSTUN_def ConnectionTURN_def)

lemma host_client_suffix_neq: "xs @ ''host'' \<noteq> ys @ ''client''"
proof
  assume "xs @ ''host'' = ys @ ''client''"
  then have "rev (xs @ ''host'') = rev (ys @ ''client'')" by simp
  then show False by simp
qed

lemma Credentials_username_neq:
  "fst (fst (Credentials lib d1 s1 (x @ ''host'') a1))
     \<noteq> fst (fst (Credentials lib d2 s2 (y @ ''client'') a2))"
proof -
  have e: "\<And>p q. p @ '':'' @ x @ ''host'' \<noteq> q @ '':'' @ y @ ''client''"
    using host_client_suffix_neq [of "_ @ '':'' @ x" "_ @ '':'' @ y"] by simp
  show ?thesis
    by (cases s1; cases s2)
       (auto simp: InternalServer_Credentials_def ExternalServer_Credentials_def Let_def
          host_client_suffix_neq e ) 
qed

text \<open>
  C4. \<open>newSession\<close> selects the ICE servers by the mode of the room. In local mode both
  parties get the empty list. In stun mode both get the same single server without
  username or credential, whose URLs are built from the public addresses and the port. In
  turn mode the host's credential is issued for \<open><sid>host\<close> and the host's address, the
  client's for \<open><sid>client\<close> and the client's address, the two usernames differ, the
  co-located issuer stores each party's address in the party's entry, and the URLs have a
  UDP and a TCP variant for the IPv4 address and for the bracketed IPv6 address.
\<close>

theorem newSession_ice_by_mode:
  assumes "Users r host = Some hu" and "Users r client = Some cu"
  shows "(Mode r = ConnectionLocal \<longrightarrow>
            newSession lib d r host client rooms v4 v6 =
              Some (rooms\<lparr>writes := writes rooms @
                       [(u_write hu, HostSession client (new_xid d) []),
                        (u_write cu, ClientSession host (new_xid d) [])]\<rparr>,
                    r\<lparr>Sessions := (Sessions r)(new_xid d \<mapsto> \<lparr>Host = host, Client = client\<rparr>)\<rparr>))
       \<and> (Mode r = ConnectionSTUN \<longrightarrow>
            newSession lib d r host client rooms v4 v6 =
              Some (rooms\<lparr>writes := writes rooms @
                       [(u_write hu, HostSession client (new_xid d)
                           [\<lparr>URLs = addresses rooms ''stun'' v4 v6 False, Credential = [], Username = []\<rparr>]),
                        (u_write cu, ClientSession host (new_xid d)
                           [\<lparr>URLs = addresses rooms ''stun'' v4 v6 False, Credential = [], Username = []\<rparr>])]\<rparr>,
                    r\<lparr>Sessions := (Sessions r)(new_xid d \<mapsto> \<lparr>Host = host, Client = client\<rparr>)\<rparr>))
       \<and> (Mode r = ConnectionTURN \<longrightarrow>
            (\<exists>hostName hostPW srv1 clientName clientPW srv2.
               Credentials lib (host_draw d) (turnServer rooms) (new_xid d @ ''host'') (Addr hu)
                 = ((hostName, hostPW), srv1)
             \<and> Credentials lib (client_draw d) srv1 (new_xid d @ ''client'') (Addr cu)
                 = ((clientName, clientPW), srv2)
             \<and> hostName \<noteq> clientName
             \<and> (\<forall>a. turnServer rooms = Internal a \<longrightarrow>
                   (\<exists>a'. srv2 = Internal a'
                      \<and> map_option addr (lookup a' (new_xid d @ ''host'')) = Some (Addr hu)
                      \<and> map_option addr (lookup a' (new_xid d @ ''client'')) = Some (Addr cu)))
             \<and> newSession lib d r host client rooms v4 v6 =
                 Some (rooms\<lparr>turnServer := srv2, writes := writes rooms @
                         [(u_write hu, HostSession client (new_xid d)
                             [\<lparr>URLs = addresses rooms ''turn'' v4 v6 True,
                               Credential = hostPW, Username = hostName\<rparr>]),
                          (u_write cu, ClientSession host (new_xid d)
                             [\<lparr>URLs = addresses rooms ''turn'' v4 v6 True,
                               Credential = clientPW, Username = clientName\<rparr>])]\<rparr>,
                       r\<lparr>Sessions := (Sessions r)(new_xid d \<mapsto> \<lparr>Host = host, Client = client\<rparr>)\<rparr>)))
       \<and> addresses rooms ''stun'' (Some a4) (Some a6) False
            = [''stun:'' @ a4 @ '':'' @ TurnPort rooms, ''stun:['' @ a6 @ '']:'' @ TurnPort rooms]
       \<and> addresses rooms ''turn'' (Some a4) (Some a6) True
            = [''turn:'' @ a4 @ '':'' @ TurnPort rooms,
               ''turn:'' @ a4 @ '':'' @ TurnPort rooms @ ''?transport=tcp'',
               ''turn:['' @ a6 @ '']:'' @ TurnPort rooms,
               ''turn:['' @ a6 @ '']:'' @ TurnPort rooms @ ''?transport=tcp'']"
proof -
  obtain hostName hostPW srv1 where h:
    "Credentials lib (host_draw d) (turnServer rooms) (new_xid d @ ''host'') (Addr hu)
       = ((hostName, hostPW), srv1)"
    by (metis surj_pair)
  obtain clientName clientPW srv2 where c:
    "Credentials lib (client_draw d) srv1 (new_xid d @ ''client'') (Addr cu)
       = ((clientName, clientPW), srv2)"
    by (metis surj_pair)
  have n: "hostName \<noteq> clientName"
    using Credentials_username_neq [of lib "host_draw d" "turnServer rooms" "new_xid d" "Addr hu"
        "client_draw d" srv1 "new_xid d" "Addr cu"] h c by simp
  have b: "\<forall>a. turnServer rooms = Internal a \<longrightarrow>
               (\<exists>a'. srv2 = Internal a'
                  \<and> map_option addr (lookup a' (new_xid d @ ''host'')) = Some (Addr hu)
                  \<and> map_option addr (lookup a' (new_xid d @ ''client'')) = Some (Addr cu))"
    using h c
    by (auto simp: InternalServer_Credentials_def allow_def Let_def host_client_suffix_neq)
  show ?thesis
    using assms h c n b
    by (auto simp: newSession_def Let_def WriteTimeout_def addresses_def xid_String_def)
qed

theorem newSession_ice_by_mode_witness:
  "Users (ex_room ConnectionTURN Map.empty) ''h'' = Some ex_host
   \<and> Users (ex_room ConnectionTURN Map.empty) ''c'' = Some ex_client
   \<and> map_option (map snd o writes o fst)
        (newSession ex_lib (ex_draw ''s1'') (ex_room ConnectionTURN Map.empty) ''h'' ''c''
           (ex_rooms (Internal \<lparr>lookup = Map.empty\<rparr>) Map.empty) (Some ''1.2.3.4'') None)
      = Some [HostSession ''c'' ''s1''
                [\<lparr>URLs = [''turn:1.2.3.4:3478'', ''turn:1.2.3.4:3478?transport=tcp''],
                  Credential = ''pwH'', Username = ''s1host''\<rparr>],
              ClientSession ''h'' ''s1''
                [\<lparr>URLs = [''turn:1.2.3.4:3478'', ''turn:1.2.3.4:3478?transport=tcp''],
                  Credential = ''pwC'', Username = ''s1client''\<rparr>]]"
  using newSession_ice_by_mode [where r = "ex_room ConnectionTURN Map.empty" and host = "''h''"
      and hu = ex_host and client = "''c''" and cu = ex_client and lib = ex_lib
      and d = "ex_draw ''s1''" and rooms = "ex_rooms (Internal \<lparr>lookup = Map.empty\<rparr>) Map.empty" and ?v4.0 = "Some ''1.2.3.4''"
      and ?v6.0 = None]
  by (auto simp: ex_room_def ex_rooms_def ex_draw_def ex_lib_def ex_host_def ex_client_def
      InternalServer_Credentials_def allow_def Let_def addresses_def)

lemma Disallow_revoked: "Disallow srv n = revoked {n} srv"
  by (cases srv)
     (auto simp: revoked_def InternalServer_Disallow_def ExternalServer_Disallow_def
        restrict_map_def fun_eq_iff)

lemma revoked_revoked: "revoked N (revoked M srv) = revoked (M \<union> N) srv"
  by (cases srv) (auto simp: revoked_def restrict_map_def fun_eq_iff)

lemma revoked_empty: "revoked {} srv = srv"
  by (cases srv) (auto simp: revoked_def restrict_map_def)

lemma closeSession_eq:
  "closeSession rooms r sid =
     (rooms\<lparr>turnServer := (if Mode r = ConnectionTURN
                            then revoked (session_usernames {sid}) (turnServer rooms)
                            else turnServer rooms)\<rparr>,
      r\<lparr>Sessions := (Sessions r)(sid := None)\<rparr>)"
  by (simp add: closeSession_def Disallow_revoked revoked_revoked session_usernames_def
      insert_commute)

lemma closeSessions_eq:
  "closeSessions rooms r ks =
     (rooms\<lparr>turnServer := (if Mode r = ConnectionTURN
                            then revoked (session_usernames (set ks \<inter> dom (Sessions r)))
                                   (turnServer rooms)
                            else turnServer rooms)\<rparr>,
      r\<lparr>Sessions := Sessions r |` (- set ks)\<rparr>)"
proof (induction ks arbitrary: rooms r)
  case Nil
  then show ?case by (simp add: session_usernames_def revoked_empty)
next
  case (Cons sid ks)
  show ?case
  proof (cases "Sessions r sid")
    case None
    then have "set (sid # ks) \<inter> dom (Sessions r) = set ks \<inter> dom (Sessions r)"
      by auto
    moreover have "Sessions r |` (- set (sid # ks))
                   = Sessions r |` (- set ks)"
      using None by (auto simp: fun_eq_iff restrict_map_def)
    ultimately show ?thesis
      using None Cons.IH [of rooms r] by simp
  next
    case (Some x)
    define r1 where "r1 = r\<lparr>Sessions := (Sessions r)(sid := None)\<rparr>"
    define R1 where "R1 = rooms\<lparr>turnServer := (if Mode r = ConnectionTURN
                            then revoked (session_usernames {sid}) (turnServer rooms)
                            else turnServer rooms)\<rparr>"
    have step: "closeSessions rooms r (sid # ks) = closeSessions R1 r1 ks"
      using Some by (simp add: closeSession_eq R1_def r1_def)
    have s: "session_usernames {sid} \<union> session_usernames (set ks \<inter> dom (Sessions r1))
             = session_usernames (set (sid # ks) \<inter> dom (Sessions r))"
      using Some by (auto simp: session_usernames_def r1_def)
    have f: "Sessions r1 |` (- set ks) = Sessions r |` (- set (sid # ks))"
      by (auto simp: fun_eq_iff restrict_map_def r1_def)
    have m: "Mode r1 = Mode r"
      by (simp add: r1_def)
    have x: "R1\<lparr>turnServer := (if Mode r = ConnectionTURN
                 then revoked (session_usernames (set ks \<inter> dom (Sessions r1))) (turnServer R1)
                 else turnServer R1)\<rparr>
             = rooms\<lparr>turnServer := (if Mode r = ConnectionTURN
                 then revoked (session_usernames (set (sid # ks) \<inter> dom (Sessions r)))
                        (turnServer rooms)
                 else turnServer rooms)\<rparr>"
      unfolding s [symmetric] by (simp add: R1_def revoked_revoked)
    have y: "r1\<lparr>Sessions := Sessions r |` (- set (sid # ks))\<rparr>
             = r\<lparr>Sessions := Sessions r |` (- set (sid # ks))\<rparr>"
      by (simp add: r1_def)
    show ?thesis
      unfolding step Cons.IH [of R1 r1] m f x y ..
  qed
qed

text \<open>
  C6. \<open>closeRoom\<close> leaves the state as it is when the room is absent. Otherwise it closes
  every session of the room and removes the room: in TURN mode exactly the usernames
  \<open><sid>host\<close> and \<open><sid>client\<close> of the room's sessions are revoked, each closed session
  leaves the session map, nothing else changes; a second call with the same id changes
  nothing.
\<close>

theorem closeRoom_idempotent:
  "(Rooms r roomID = None \<longrightarrow> closeRoom ks r roomID = r)
   \<and> (\<forall>room. Rooms r roomID = Some room \<and> iteration_order (Sessions room) ks \<longrightarrow>
         closeRoom ks r roomID =
           r\<lparr>turnServer := (if Mode room = ConnectionTURN
                              then revoked (session_usernames (dom (Sessions room))) (turnServer r)
                              else turnServer r),
             Rooms := (Rooms r)(roomID := None)\<rparr>
         \<and> snd (closeSessions r room ks) = room\<lparr>Sessions := Map.empty\<rparr>)
   \<and> closeSession r room' sid =
         (r\<lparr>turnServer := (if Mode room' = ConnectionTURN
                              then revoked {xid_String sid @ ''host'', xid_String sid @ ''client''}
                                     (turnServer r)
                              else turnServer r)\<rparr>,
          room'\<lparr>Sessions := (Sessions room')(sid := None)\<rparr>)
   \<and> closeRoom ks' (closeRoom ks r roomID) roomID = closeRoom ks r roomID"
proof -
  have a: "Rooms (closeRoom ks r roomID) roomID = None"
    by (auto simp: closeRoom_def closeSessions_eq split: option.splits)
  have b: "\<And>room. Rooms r roomID = Some room \<Longrightarrow> iteration_order (Sessions room) ks \<Longrightarrow>
             Sessions room |` (- set ks) = Map.empty"
    by (auto simp: iteration_order_def fun_eq_iff restrict_map_def)
  have c: "\<And>room. iteration_order (Sessions room) ks \<Longrightarrow>
             set ks \<inter> dom (Sessions room) = dom (Sessions room)"
    by (auto simp: iteration_order_def)
  have d: "\<forall>room. Rooms r roomID = Some room \<and> iteration_order (Sessions room) ks \<longrightarrow>
         closeRoom ks r roomID =
           r\<lparr>turnServer := (if Mode room = ConnectionTURN
                              then revoked (session_usernames (dom (Sessions room))) (turnServer r)
                              else turnServer r),
             Rooms := (Rooms r)(roomID := None)\<rparr>
         \<and> snd (closeSessions r room ks) = room\<lparr>Sessions := Map.empty\<rparr>"
    by (simp add: closeRoom_def closeSessions_eq b c)
  have e: "closeRoom ks' (closeRoom ks r roomID) roomID = closeRoom ks r roomID"
    using a by (simp add: closeRoom_def [of ks'])
  show ?thesis
    using d e
    by (simp add: closeRoom_def closeSession_eq session_usernames_def)
qed

theorem closeRoom_idempotent_witness:
  "Rooms (ex_rooms ex_server [''r1'' \<mapsto> ex_room ConnectionTURN [''s1'' \<mapsto> \<lparr>Host = ''h'', Client = ''c''\<rparr>]]) ''r1''
     = Some (ex_room ConnectionTURN [''s1'' \<mapsto> \<lparr>Host = ''h'', Client = ''c''\<rparr>])
   \<and> iteration_order (Sessions (ex_room ConnectionTURN [''s1'' \<mapsto> \<lparr>Host = ''h'', Client = ''c''\<rparr>])) [''s1'']
   \<and> closeRoom [''s1'']
         (ex_rooms ex_server [''r1'' \<mapsto> ex_room ConnectionTURN [''s1'' \<mapsto> \<lparr>Host = ''h'', Client = ''c''\<rparr>]]) ''r1''
       = ex_rooms (Internal \<lparr>lookup = [''other'' \<mapsto> ex_entry]\<rparr>) Map.empty
   \<and> Rooms (ex_rooms ex_server Map.empty) ''r1'' = None
   \<and> closeRoom [''s1''] (ex_rooms ex_server Map.empty) ''r1'' = ex_rooms ex_server Map.empty"
proof -
  have l: "[''s1host'' \<mapsto> ex_entry, ''s1client'' \<mapsto> ex_entry, ''other'' \<mapsto> ex_entry]
             |` (- {''s1host'', ''s1client''}) = [''other'' \<mapsto> ex_entry]"
    by (auto simp: restrict_map_def fun_eq_iff)
  show ?thesis
    using closeRoom_idempotent [of
        "ex_rooms ex_server [''r1'' \<mapsto> ex_room ConnectionTURN [''s1'' \<mapsto> \<lparr>Host = ''h'', Client = ''c''\<rparr>]]"
        "''r1''" "[''s1'']"]
      closeRoom_idempotent [of "ex_rooms ex_server Map.empty" "''r1''" "[''s1'']"]
    by (simp add: ex_rooms_def ex_room_def ex_server_def iteration_order_def
        session_usernames_def revoked_def xid_String_def l)
qed

section \<open>Room-info broadcast\<close>

lemma users_le_iff: "owner_streaming_name_le a b \<longleftrightarrow> \<not> less_users b a"
  by (auto simp: owner_streaming_name_le_def less_users_def)

lemma users_le_total: "owner_streaming_name_le a b \<or> owner_streaming_name_le b a"
  by (auto simp: owner_streaming_name_le_def)

lemma users_le_trans:
  "owner_streaming_name_le a b \<Longrightarrow> owner_streaming_name_le b c \<Longrightarrow> owner_streaming_name_le a c"
  by (auto simp: owner_streaming_name_le_def)

lemma mset_insert_by: "mset (insert_by lt x xs) = add_mset x (mset xs)"
  by (induction xs) auto

lemma mset_sort_Slice: "mset (sort_Slice lt xs) = mset xs"
  by (induction xs) (auto simp: sort_Slice_def mset_insert_by)

lemma set_insert_by: "set (insert_by lt x xs) = insert x (set xs)"
  by (induction xs) auto

lemma sorted_insert_by:
  "sorted_wrt owner_streaming_name_le xs \<Longrightarrow>
   sorted_wrt owner_streaming_name_le (insert_by less_users x xs)"
proof (induction xs)
  case Nil
  then show ?case by simp
next
  case (Cons y ys)
  show ?case
  proof (cases "less_users x y")
    case True
    then have xy: "owner_streaming_name_le x y"
      using users_le_iff users_le_total by blast
    then have "\<forall>z\<in>set ys. owner_streaming_name_le x z"
      using Cons.prems users_le_trans by auto
    then show ?thesis
      using True xy Cons.prems by simp
  next
    case False
    then have "owner_streaming_name_le y x"
      by (simp add: users_le_iff)
    then show ?thesis
      using False Cons by (auto simp: set_insert_by)
  qed
qed

lemma sorted_sort_Slice: "sorted_wrt owner_streaming_name_le (sort_Slice less_users xs)"
  by (induction xs) (auto simp: sort_Slice_def sorted_insert_by)

lemma writes_fold_WriteTimeout:
  "writes (fold (\<lambda>(c, u). WriteTimeout u (f c)) xs rooms)
     = writes rooms @ map (\<lambda>(c, u). (u_write u, f c)) xs"
  by (induction xs arbitrary: rooms) (auto simp: WriteTimeout_def)

lemma range_map_eq:
  "set ks \<subseteq> dom m \<Longrightarrow> range_map m ks = map (\<lambda>k. (k, the (m k))) ks"
  by (induction ks) (auto simp: range_map_def)

lemma mset_range_map:
  assumes "iteration_order m ks"
  shows "mset (range_map m ks) = mset_set (Map.graph m)"
proof -
  have e: "range_map m ks = map (\<lambda>k. (k, the (m k))) ks"
    using assms by (simp add: range_map_eq iteration_order_def)
  have d: "distinct (range_map m ks)"
    using assms unfolding e by (simp add: distinct_map iteration_order_def inj_on_def)
  have "set (range_map m ks) = Map.graph m"
    using assms unfolding e by (simp add: graph_eq_to_snd_dom iteration_order_def)
  then show ?thesis
    using mset_set_set [OF d] by simp
qed

lemma keys_range_map:
  "iteration_order m ks \<Longrightarrow> map fst (range_map m ks) = ks"
  by (simp add: range_map_eq iteration_order_def comp_def)

lemma filter_key_range_map:
  assumes "iteration_order m ks" and "m c = Some u"
  shows "filter (\<lambda>ku. c = fst ku) (range_map m ks) = [(c, u)]"
proof -
  have "c \<in> set ks" and "distinct ks"
    using assms by (auto simp: iteration_order_def)
  then have "filter (\<lambda>k. c = k) ks = [c]"
    by (induction ks) (auto simp: filter_empty_conv)
  then show ?thesis
    using assms 
    by (simp add: range_map_eq iteration_order_def filter_map comp_def)
qed

lemma filter_You_snapshot:
  assumes "iteration_order (Users r) ks" and "Users r c = Some u"
  shows "filter You (snapshot ks r c) = [OutUser_of c (c, u)]"
proof -
  have "mset (filter You (snapshot ks r c))
          = image_mset (OutUser_of c) (mset (filter (\<lambda>ku. c = fst ku) (range_map (Users r) ks)))"
    by (simp add: snapshot_def mset_sort_Slice filter_mset_image_mset OutUser_of_def)
  then have "mset (filter You (snapshot ks r c)) = {#OutUser_of c (c, u)#}"
    using filter_key_range_map [OF assms] by simp
  then show ?thesis
    by (metis mset_single_iff_right mset.simps(2) mset_zero_iff_right single_is_union mset_eq_setD)
qed

lemma perms3:
  assumes "distinct ks" and "set ks = {a, b, c}" and "a \<noteq> b" and "a \<noteq> c" and "b \<noteq> c"
  shows "ks \<in> {[a, b, c], [a, c, b], [b, a, c], [b, c, a], [c, a, b], [c, b, a]}"
proof -
  have "length ks = 3"
    using assms distinct_card [of ks] by simp
  then obtain x y z where k: "ks = [x, y, z]"
    by (auto simp: length_Suc_conv numeral_3_eq_3)
  have "x \<in> {a, b, c}" and "y \<in> {a, b, c}" and "z \<in> {a, b, c}"
    using assms(2) unfolding k by auto
  moreover have "x \<noteq> y" and "x \<noteq> z" and "y \<noteq> z"
    using assms(1) unfolding k by auto
  ultimately show ?thesis
    unfolding k by auto
qed

lemma insert_by_map:
  "insert_by lt (f x) (map f ys) = map f (insert_by (\<lambda>a b. lt (f a) (f b)) x ys)"
  by (induction ys) auto

lemma sort_Slice_map:
  "sort_Slice lt (map f xs) = map f (sort_Slice (\<lambda>a b. lt (f a) (f b)) xs)"
  by (induction xs) (auto simp: sort_Slice_def insert_by_map)

lemma OutUser_of_eq:
  "OutUser_of c = (\<lambda>(k, u). \<lparr>out_ID = ID u, out_Name = Name u, out_Streaming = Streaming u,
                               You = (k = c), out_Owner = Owner u\<rparr>)"
  by (auto simp: OutUser_of_def fun_eq_iff)

lemma le_OutUser_of:
  "owner_streaming_name_le (OutUser_of c a) (OutUser_of c b)
     = owner_streaming_name_first (snd a) (snd b)"
  by (simp add: owner_streaming_name_le_def owner_streaming_name_first_def OutUser_of_def)

lemma snapshot_users:
  assumes "iteration_order (Users r) ks"
  shows "\<exists>kus. mset kus = mset_set (Map.graph (Users r))
           \<and> snapshot ks r c
               = map (\<lambda>(k, u). \<lparr>out_ID = ID u, out_Name = Name u, out_Streaming = Streaming u,
                                  You = (k = c), out_Owner = Owner u\<rparr>) kus
           \<and> sorted_wrt (\<lambda>a b. owner_streaming_name_first (snd a) (snd b)) kus"
proof -
  define kus where
    "kus = sort_Slice (\<lambda>a b. less_users (OutUser_of c a) (OutUser_of c b)) (range_map (Users r) ks)"
  have s: "snapshot ks r c = map (OutUser_of c) kus"
    by (simp add: snapshot_def kus_def sort_Slice_map)
  have m: "mset kus = mset_set (Map.graph (Users r))"
    using assms by (simp add: kus_def mset_sort_Slice mset_range_map)
  have "sorted_wrt owner_streaming_name_le (map (OutUser_of c) kus)"
    using sorted_sort_Slice [of "map (OutUser_of c) (range_map (Users r) ks)"]
    by (simp add: s [symmetric] snapshot_def)
  then have o: "sorted_wrt (\<lambda>a b. owner_streaming_name_first (snd a) (snd b)) kus"
    by (simp add: sorted_wrt_map le_OutUser_of)
  show ?thesis
    using m s o unfolding OutUser_of_eq by blast
qed

lemma osi_snapshot:
  assumes "iteration_order osi_users ks"
  shows "snapshot ks osi_room c =
     [\<lparr>out_ID = ''O'', out_Name = ''Zed'', out_Streaming = False, You = (c = ''O''), out_Owner = True\<rparr>,
      \<lparr>out_ID = ''S'', out_Name = ''Mia'', out_Streaming = True, You = (c = ''S''), out_Owner = False\<rparr>,
      \<lparr>out_ID = ''I'', out_Name = ''Amy'', out_Streaming = False, You = (c = ''I''), out_Owner = False\<rparr>]"
proof -
  have "dom osi_users = {''O'', ''S'', ''I''}"
    by (auto simp: osi_users_def)
  then have "ks \<in> {[''O'', ''S'', ''I''], [''O'', ''I'', ''S''], [''S'', ''O'', ''I''],
                   [''S'', ''I'', ''O''], [''I'', ''O'', ''S''], [''I'', ''S'', ''O'']}"
    using assms perms3 [of ks "''O''" "''S''" "''I''"] by (simp add: iteration_order_def)
  then have "ks = [''O'', ''S'', ''I''] \<or> ks = [''O'', ''I'', ''S''] \<or> ks = [''S'', ''O'', ''I'']
             \<or> ks = [''S'', ''I'', ''O''] \<or> ks = [''I'', ''O'', ''S''] \<or> ks = [''I'', ''S'', ''O'']"
    by simp
  then show ?thesis
    by (elim disjE)
       (simp_all add: snapshot_def osi_room_def osi_users_def range_map_def sort_Slice_def
          OutUser_of_def less_users_def)
qed

lemma abc_snapshot_full:
  assumes "iteration_order abc_users ks"
  shows "snapshot ks abc_room c =
     [\<lparr>out_ID = ''A'', out_Name = ''Bob'', out_Streaming = True, You = (c = ''A''), out_Owner = True\<rparr>,
      \<lparr>out_ID = ''B'', out_Name = ''Amy'', out_Streaming = True, You = (c = ''B''), out_Owner = False\<rparr>,
      \<lparr>out_ID = ''C'', out_Name = ''Zoe'', out_Streaming = False, You = (c = ''C''), out_Owner = False\<rparr>]"
proof -
  have "dom abc_users = {''A'', ''B'', ''C''}"
    by (auto simp: abc_users_def)
  then have "ks \<in> {[''A'', ''B'', ''C''], [''A'', ''C'', ''B''], [''B'', ''A'', ''C''],
                   [''B'', ''C'', ''A''], [''C'', ''A'', ''B''], [''C'', ''B'', ''A'']}"
    using assms perms3 [of ks "''A''" "''B''" "''C''"] by (simp add: iteration_order_def)
  then have "ks = [''A'', ''B'', ''C''] \<or> ks = [''A'', ''C'', ''B''] \<or> ks = [''B'', ''A'', ''C'']
             \<or> ks = [''B'', ''C'', ''A''] \<or> ks = [''C'', ''A'', ''B''] \<or> ks = [''C'', ''B'', ''A'']"
    by simp
  then show ?thesis
    by (elim disjE)
       (simp_all add: snapshot_def abc_room_def abc_users_def range_map_def sort_Slice_def
          OutUser_of_def less_users_def)
qed

text \<open>
  C7. A room-info broadcast sends one message to every member. The user list of each
  message holds one record for every member, with the id, name, streaming flag and owner
  flag of that member, in an order in which owners come first, then the members that
  stream, then names ascending in byte order; the only record with \<open>you = true\<close> is the
  recipient's own. For the users A (owner, streaming, "Bob"), B (streaming, "Amy") and C
  (idle, "Zoe") the list is A, B, C, and for O (owner, idle, "Zed"), S (streaming, "Mia")
  and I (idle, "Amy") it is O, S, I, whatever the iteration order of the map.
\<close>

theorem notifyInfoChanged_sorted_personalized:
  assumes "iteration_order (Users r) outer" and "\<forall>c. iteration_order (Users r) (inner c)"
  shows "writes (notifyInfoChanged outer inner r rooms)
           = writes rooms @ map (\<lambda>(c, current).
               (u_write current, RoomMsg (Room_ID r) (snapshot (inner c) r c)))
               (range_map (Users r) outer)
         \<and> map fst (range_map (Users r) outer) = outer
         \<and> (\<forall>c current. Users r c = Some current \<longrightarrow>
               (\<exists>kus. mset kus = mset_set (Map.graph (Users r))
                  \<and> snapshot (inner c) r c
                      = map (\<lambda>(k, u). \<lparr>out_ID = ID u, out_Name = Name u,
                                         out_Streaming = Streaming u, You = (k = c),
                                         out_Owner = Owner u\<rparr>) kus
                  \<and> sorted_wrt (\<lambda>a b. owner_streaming_name_first (snd a) (snd b)) kus)
             \<and> sorted_wrt owner_streaming_name_le (snapshot (inner c) r c)
             \<and> filter You (snapshot (inner c) r c)
                 = [\<lparr>out_ID = ID current, out_Name = Name current,
                     out_Streaming = Streaming current, You = True,
                     out_Owner = Owner current\<rparr>])
         \<and> (\<forall>ks. iteration_order abc_users ks \<longrightarrow>
               snapshot ks abc_room c' =
                 [\<lparr>out_ID = ''A'', out_Name = ''Bob'', out_Streaming = True,
                   You = (c' = ''A''), out_Owner = True\<rparr>,
                  \<lparr>out_ID = ''B'', out_Name = ''Amy'', out_Streaming = True,
                   You = (c' = ''B''), out_Owner = False\<rparr>,
                  \<lparr>out_ID = ''C'', out_Name = ''Zoe'', out_Streaming = False,
                   You = (c' = ''C''), out_Owner = False\<rparr>])
         \<and> (\<forall>ks. iteration_order osi_users ks \<longrightarrow>
               snapshot ks osi_room c' =
                 [\<lparr>out_ID = ''O'', out_Name = ''Zed'', out_Streaming = False,
                   You = (c' = ''O''), out_Owner = True\<rparr>,
                  \<lparr>out_ID = ''S'', out_Name = ''Mia'', out_Streaming = True,
                   You = (c' = ''S''), out_Owner = False\<rparr>,
                  \<lparr>out_ID = ''I'', out_Name = ''Amy'', out_Streaming = False,
                   You = (c' = ''I''), out_Owner = False\<rparr>])"
proof -
  have w: "writes (notifyInfoChanged outer inner r rooms)
           = writes rooms @ map (\<lambda>(c, current).
               (u_write current, RoomMsg (Room_ID r) (snapshot (inner c) r c)))
               (range_map (Users r) outer)"
    unfolding notifyInfoChanged_def by (rule writes_fold_WriteTimeout)
  have k: "map fst (range_map (Users r) outer) = outer"
    using assms(1) by (rule keys_range_map)
  have u: "\<exists>kus. mset kus = mset_set (Map.graph (Users r))
                  \<and> snapshot (inner c) r c
                      = map (\<lambda>(k, u). \<lparr>out_ID = ID u, out_Name = Name u,
                                         out_Streaming = Streaming u, You = (k = c),
                                         out_Owner = Owner u\<rparr>) kus
                  \<and> sorted_wrt (\<lambda>a b. owner_streaming_name_first (snd a) (snd b)) kus" for c
    using assms(2) snapshot_users by blast
  have s: "sorted_wrt owner_streaming_name_le (snapshot (inner c) r c)" for c
    by (simp add: snapshot_def sorted_sort_Slice)
  have y: "filter You (snapshot (inner c) r c)
                 = [\<lparr>out_ID = ID current, out_Name = Name current,
                     out_Streaming = Streaming current, You = True,
                     out_Owner = Owner current\<rparr>]"
    if "Users r c = Some current" for c current
  proof -
    have "iteration_order (Users r) (inner c)"
      using assms(2) by blast
    from filter_You_snapshot [OF this that] show ?thesis
      by (simp add: OutUser_of_def)
  qed
  have a: "snapshot ks abc_room c' =
                 [\<lparr>out_ID = ''A'', out_Name = ''Bob'', out_Streaming = True,
                   You = (c' = ''A''), out_Owner = True\<rparr>,
                  \<lparr>out_ID = ''B'', out_Name = ''Amy'', out_Streaming = True,
                   You = (c' = ''B''), out_Owner = False\<rparr>,
                  \<lparr>out_ID = ''C'', out_Name = ''Zoe'', out_Streaming = False,
                   You = (c' = ''C''), out_Owner = False\<rparr>]"
    if "iteration_order abc_users ks" for ks
    using that by (rule abc_snapshot_full)
  have o: "snapshot ks osi_room c' =
                 [\<lparr>out_ID = ''O'', out_Name = ''Zed'', out_Streaming = False,
                   You = (c' = ''O''), out_Owner = True\<rparr>,
                  \<lparr>out_ID = ''S'', out_Name = ''Mia'', out_Streaming = True,
                   You = (c' = ''S''), out_Owner = False\<rparr>,
                  \<lparr>out_ID = ''I'', out_Name = ''Amy'', out_Streaming = False,
                   You = (c' = ''I''), out_Owner = False\<rparr>]"
    if "iteration_order osi_users ks" for ks
    using that by (rule osi_snapshot)
  show ?thesis
  proof (intro conjI allI impI)
    show "writes (notifyInfoChanged outer inner r rooms)
           = writes rooms @ map (\<lambda>(c, current).
               (u_write current, RoomMsg (Room_ID r) (snapshot (inner c) r c)))
               (range_map (Users r) outer)"
      by (rule w)
    show "map fst (range_map (Users r) outer) = outer"
      by (rule k)
  qed (use u s y a o in blast)+
qed

theorem notifyInfoChanged_sorted_personalized_witness:
  "iteration_order (Users osi_room) [''I'', ''O'', ''S'']
   \<and> (\<forall>c. iteration_order (Users osi_room) [''S'', ''I'', ''O''])
   \<and> map (\<lambda>(ch, m). (ch, case m of
              RoomMsg i us \<Rightarrow> map (\<lambda>u. (out_Name u, out_Owner u, out_Streaming u, You u)) us
            | _ \<Rightarrow> []))
        (writes (notifyInfoChanged [''I'', ''O'', ''S''] (\<lambda>c. [''S'', ''I'', ''O'']) osi_room
           (ex_rooms ex_server [''r2'' \<mapsto> osi_room])))
     = [(3, [(''Zed'', True, False, False), (''Mia'', False, True, False),
             (''Amy'', False, False, True)]),
        (1, [(''Zed'', True, False, True), (''Mia'', False, True, False),
             (''Amy'', False, False, False)]),
        (2, [(''Zed'', True, False, False), (''Mia'', False, True, True),
             (''Amy'', False, False, False)])]"
proof -
  have d: "dom osi_users = {''O'', ''S'', ''I''}"
    by (auto simp: osi_users_def)
  have i: "iteration_order (Users osi_room) [''I'', ''O'', ''S'']"
    and j: "\<forall>c::xid. iteration_order (Users osi_room) [''S'', ''I'', ''O'']"
    using d by (auto simp: iteration_order_def osi_room_def)
  have k: "iteration_order osi_users [''S'', ''I'', ''O'']"
    using j by (simp add: osi_room_def)
  note t = notifyInfoChanged_sorted_personalized [OF i j,
      of "ex_rooms ex_server [''r2'' \<mapsto> osi_room]"]
  have w: "writes (notifyInfoChanged [''I'', ''O'', ''S''] (\<lambda>c. [''S'', ''I'', ''O'']) osi_room
             (ex_rooms ex_server [''r2'' \<mapsto> osi_room]))
           = map (\<lambda>(c, current).
               (u_write current, RoomMsg (Room_ID osi_room) (snapshot [''S'', ''I'', ''O''] osi_room c)))
               (range_map (Users osi_room) [''I'', ''O'', ''S''])"
    using t [THEN conjunct1] by (simp add: ex_rooms_def)
  have s: "snapshot [''S'', ''I'', ''O''] osi_room c =
                 [\<lparr>out_ID = ''O'', out_Name = ''Zed'', out_Streaming = False,
                   You = (c = ''O''), out_Owner = True\<rparr>,
                  \<lparr>out_ID = ''S'', out_Name = ''Mia'', out_Streaming = True,
                   You = (c = ''S''), out_Owner = False\<rparr>,
                  \<lparr>out_ID = ''I'', out_Name = ''Amy'', out_Streaming = False,
                   You = (c = ''I''), out_Owner = False\<rparr>]" for c
    using t [THEN conjunct2, THEN conjunct2, THEN conjunct2, THEN conjunct2, rule_format, OF k] .
  show ?thesis
    using i j unfolding w s
    by (simp add: osi_room_def osi_users_def range_map_def)
qed

section \<open>Relay events\<close>

text \<open>
  C3, the claim as stated fails: a sender that is connected but in no room gets the error
  of \<open>CurrentRoom\<close> for a relay event, also when the session it names exists nowhere.
\<close>

theorem relay_unknown_session_counterexample:
  "fst (HostOffer_Execute \<lparr>SID = ''s9'', Value = ''sdp''\<rparr> ex_hub (ex_info ''n''))
     = Error ''not in a room''"
  by (simp add: HostOffer_Execute_def CurrentRoom_def ex_hub_def ex_info_def)

text \<open>
  C3, amended. For a sender whose current room resolves: when the room has no session of
  the given id, the handlers of host-offer, host-ice and client-answer return success and
  leave the state as it is; when the session exists and the sender is not its host (for
  client-answer: not its client), they fail with permission denied and leave the state as it
  is; when the sender is the host (the client) and the peer is a member of the room, the
  message is written to the peer's channel with the same session id and payload, under the
  tag of the handler. When the current room does not resolve, the handlers fail with the
  error of \<open>CurrentRoom\<close>.
\<close>

theorem relay_authorization:
  assumes "CurrentRoom rooms current = Inr room"
  shows "(Sessions room (SID e) = None \<longrightarrow>
            HostOffer_Execute e rooms current = (Ok, rooms)
          \<and> HostICE_Execute e rooms current = (Ok, rooms)
          \<and> ClientAnswer_Execute e rooms current = (Ok, rooms))
       \<and> (\<forall>session. Sessions room (SID e) = Some session \<and> Host session \<noteq> Client_ID current \<longrightarrow>
            HostOffer_Execute e rooms current
              = (Error (''permission denied for session '' @ xid_String (SID e)), rooms)
          \<and> HostICE_Execute e rooms current
              = (Error (''permission denied for session '' @ xid_String (SID e)), rooms))
       \<and> (\<forall>session. Sessions room (SID e) = Some session \<and> Client session \<noteq> Client_ID current \<longrightarrow>
            ClientAnswer_Execute e rooms current
              = (Error (''permission denied for session '' @ xid_String (SID e)), rooms))
       \<and> (\<forall>session u. Sessions room (SID e) = Some session \<and> Host session = Client_ID current
              \<and> Users room (Client session) = Some u \<longrightarrow>
            HostOffer_Execute e rooms current
              = (Ok, rooms\<lparr>writes := writes rooms @ [(u_write u, HostOffer e)]\<rparr>)
          \<and> HostICE_Execute e rooms current
              = (Ok, rooms\<lparr>writes := writes rooms @ [(u_write u, HostICE e)]\<rparr>))
       \<and> (\<forall>session u. Sessions room (SID e) = Some session \<and> Client session = Client_ID current
              \<and> Users room (Host session) = Some u \<longrightarrow>
            ClientAnswer_Execute e rooms current
              = (Ok, rooms\<lparr>writes := writes rooms @ [(u_write u, ClientAnswer e)]\<rparr>))
       \<and> (\<forall>err. CurrentRoom rooms' current' = Inl err \<longrightarrow>
            HostOffer_Execute e rooms' current' = (Error err, rooms')
          \<and> HostICE_Execute e rooms' current' = (Error err, rooms')
          \<and> ClientAnswer_Execute e rooms' current' = (Error err, rooms'))"
  using assms
  by (auto simp: HostOffer_Execute_def HostICE_Execute_def ClientAnswer_Execute_def
      WriteTimeout_def)

theorem relay_authorization_witness:
  "CurrentRoom ex_hub (ex_info ''h'')
     = Inr (ex_room ConnectionTURN [''s1'' \<mapsto> \<lparr>Host = ''h'', Client = ''c''\<rparr>])
   \<and> HostOffer_Execute \<lparr>SID = ''s1'', Value = ''sdp''\<rparr> ex_hub (ex_info ''h'')
     = (Ok, ex_hub\<lparr>writes := [(2, HostOffer \<lparr>SID = ''s1'', Value = ''sdp''\<rparr>)]\<rparr>)
   \<and> HostICE_Execute \<lparr>SID = ''s9'', Value = ''candidate''\<rparr> ex_hub (ex_info ''h'') = (Ok, ex_hub)
   \<and> ClientAnswer_Execute \<lparr>SID = ''s1'', Value = ''sdp''\<rparr> ex_hub (ex_info ''h'')
     = (Error ''permission denied for session s1'', ex_hub)
   \<and> CurrentRoom ex_hub (ex_info ''n'') = Inl ''not in a room''
   \<and> HostICE_Execute \<lparr>SID = ''s1'', Value = ''candidate''\<rparr> ex_hub (ex_info ''n'')
     = (Error ''not in a room'', ex_hub)"
proof -
  have c: "CurrentRoom ex_hub (ex_info ''h'')
             = Inr (ex_room ConnectionTURN [''s1'' \<mapsto> \<lparr>Host = ''h'', Client = ''c''\<rparr>])"
    by (simp add: CurrentRoom_def ex_hub_def ex_info_def)
  have n: "CurrentRoom ex_hub (ex_info ''n'') = Inl ''not in a room''"
    by (simp add: CurrentRoom_def ex_hub_def ex_info_def)
  show ?thesis
    using c n
      relay_authorization [OF c, where e = "\<lparr>SID = ''s1'', Value = ''sdp''\<rparr>"]
      relay_authorization [OF c, where e = "\<lparr>SID = ''s9'', Value = ''candidate''\<rparr>"]
      relay_authorization [OF c, where e = "\<lparr>SID = ''s1'', Value = ''candidate''\<rparr>"
        and rooms' = ex_hub and current' = "ex_info ''n''"]
    by (simp add: ex_room_def ex_info_def ex_client_def ex_host_def xid_String_def)
       (simp add: ex_hub_def)
qed

section \<open>Join\<close>

lemma newSession_shape:
  assumes "Users r host = Some hu" and "Users r client = Some cu"
  shows "\<exists>srv iceH iceC.
           newSession lib d r host client rooms v4 v6 =
             Some (rooms\<lparr>turnServer := srv, writes := writes rooms @
                       [(u_write hu, HostSession client (new_xid d) iceH),
                        (u_write cu, ClientSession host (new_xid d) iceC)]\<rparr>,
                   r\<lparr>Sessions := (Sessions r)(new_xid d \<mapsto> \<lparr>Host = host, Client = client\<rparr>)\<rparr>)"
proof (cases "Mode r = ConnectionTURN")
  case False
  then show ?thesis
    using assms
    by (intro exI [of _ "turnServer rooms"]) (auto simp: newSession_def Let_def WriteTimeout_def)
next
  case True
  then show ?thesis
    using assms
    by (auto simp: newSession_def Let_def WriteTimeout_def split: prod.splits)
qed

lemma streaming_peers_Cons:
  "streaming_peers room c (k # ks) =
     (if (case Users room k of None \<Rightarrow> False | Some u \<Rightarrow> k \<noteq> c \<and> Streaming u)
      then k # streaming_peers room c ks else streaming_peers room c ks)"
  by (simp add: streaming_peers_def)

lemma streaming_peers_subset: "set (streaming_peers room c ks) \<subseteq> set ks"
  by (auto simp: streaming_peers_def)

lemma streaming_peers_Sessions [simp]:
  "streaming_peers (room\<lparr>Sessions := ss\<rparr>) c ks = streaming_peers room c ks"
  by (simp add: streaming_peers_def)

lemma session_writes_cong:
  assumes "\<And>k. k \<in> set ks \<Longrightarrow> iceH k = iceH' k \<and> iceC k = iceC' k"
  shows "session_writes env room current iceH iceC ks
           = session_writes env room current iceH' iceC' ks"
proof -
  have "\<And>k. k \<in> set (streaming_peers room (Client_ID current) ks) \<Longrightarrow>
          iceH k = iceH' k \<and> iceC k = iceC' k"
    using assms streaming_peers_subset by blast
  then show ?thesis
    unfolding session_writes_def
    by (intro arg_cong [where f = concat] map_cong) (auto split: option.splits)
qed

lemma join_sessions_shape:
  assumes "users_by_key room" and "Users room (Client_ID current) = Some cu"
    and "u_write cu = Write current" and "distinct ks"
  shows "\<exists>srv iceH iceC.
           join_sessions lib env current v4 v6 rooms room ks =
             Some (rooms\<lparr>turnServer := srv,
                         writes := writes rooms @ session_writes env room current iceH iceC ks\<rparr>,
                   room\<lparr>Sessions := session_entries env room current ks\<rparr>)"
  using assms
proof (induction ks arbitrary: rooms room)
  case Nil
  show ?case
    by (intro exI [of _ "turnServer rooms"])
       (simp add: streaming_peers_def session_writes_def session_entries_def)
next
  case (Cons k ks)
  have d: "distinct ks" and nk: "k \<notin> set ks"
    using Cons.prems(4) by auto
  show ?case
  proof (cases "case Users room k of None \<Rightarrow> False | Some u \<Rightarrow> k \<noteq> Client_ID current \<and> Streaming u")
    case False
    then have skip: "join_sessions lib env current v4 v6 rooms room (k # ks)
                 = join_sessions lib env current v4 v6 rooms room ks"
      using Cons.prems(1) by (auto simp: users_by_key_def split: option.splits)
    have p: "streaming_peers room (Client_ID current) (k # ks)
               = streaming_peers room (Client_ID current) ks"
      using False by (simp add: streaming_peers_Cons)
    show ?thesis
      using Cons.IH [OF Cons.prems(1) Cons.prems(2) Cons.prems(3) d, of rooms]
      unfolding skip session_writes_def session_entries_def p .
  next
    case True
    then obtain hu where hu: "Users room k = Some hu" and ne: "k \<noteq> Client_ID current"
      and st: "Streaming hu"
      by (auto split: option.splits)
    have idk: "ID hu = k"
      using Cons.prems(1) hu by (simp add: users_by_key_def)
    obtain srv1 iH iC where ns:
      "newSession lib (draws env k) room k (Client_ID current) rooms v4 v6 =
         Some (rooms\<lparr>turnServer := srv1, writes := writes rooms @
                   [(u_write hu, HostSession (Client_ID current) (new_xid (draws env k)) iH),
                    (u_write cu, ClientSession k (new_xid (draws env k)) iC)]\<rparr>,
               room\<lparr>Sessions := (Sessions room)(new_xid (draws env k) \<mapsto>
                       \<lparr>Host = k, Client = Client_ID current\<rparr>)\<rparr>)"
      using newSession_shape [OF hu Cons.prems(2)] by blast
    define rooms1 where "rooms1 = rooms\<lparr>turnServer := srv1, writes := writes rooms @
                   [(u_write hu, HostSession (Client_ID current) (new_xid (draws env k)) iH),
                    (u_write cu, ClientSession k (new_xid (draws env k)) iC)]\<rparr>"
    define room1 where "room1 = room\<lparr>Sessions := (Sessions room)(new_xid (draws env k) \<mapsto>
                       \<lparr>Host = k, Client = Client_ID current\<rparr>)\<rparr>"
    have step: "join_sessions lib env current v4 v6 rooms room (k # ks)
                 = join_sessions lib env current v4 v6 rooms1 room1 ks"
      using hu ne st idk ns by (simp add: rooms1_def room1_def)
    have u1: "users_by_key room1" and c1: "Users room1 (Client_ID current) = Some cu"
      using Cons.prems by (simp_all add: room1_def users_by_key_def)
    obtain srv iceH iceC where ih:
      "join_sessions lib env current v4 v6 rooms1 room1 ks =
         Some (rooms1\<lparr>turnServer := srv,
                 writes := writes rooms1 @ session_writes env room1 current iceH iceC ks\<rparr>,
               room1\<lparr>Sessions := session_entries env room1 current ks\<rparr>)"
      using Cons.IH [OF u1 c1 Cons.prems(3) d, of rooms1] by blast
    have p: "streaming_peers room (Client_ID current) (k # ks)
               = k # streaming_peers room (Client_ID current) ks"
      using True by (simp add: streaming_peers_Cons)
    have w1: "session_writes env room1 current iceH iceC ks
                = session_writes env room current (iceH(k := iH)) (iceC(k := iC)) ks"
    proof -
      have "session_writes env room1 current iceH iceC ks
              = session_writes env room current iceH iceC ks"
        by (simp add: session_writes_def room1_def)
      also have "\<dots> = session_writes env room current (iceH(k := iH)) (iceC(k := iC)) ks"
        using nk by (intro session_writes_cong) auto
      finally show ?thesis .
    qed
    have w: "writes rooms1 @ session_writes env room1 current iceH iceC ks
               = writes rooms @ session_writes env room current (iceH(k := iH)) (iceC(k := iC)) (k # ks)"
      unfolding w1
      using hu Cons.prems(3) by (simp add: rooms1_def session_writes_def p)
    have e: "session_entries env room1 current ks = session_entries env room current (k # ks)"
      by (simp add: session_entries_def p room1_def)
    have "join_sessions lib env current v4 v6 rooms room (k # ks) =
            Some (rooms\<lparr>turnServer := srv,
                    writes := writes rooms @
                      session_writes env room current (iceH(k := iH)) (iceC(k := iC)) (k # ks)\<rparr>,
                  room\<lparr>Sessions := session_entries env room current (k # ks)\<rparr>)"
      unfolding step ih w e by (simp add: rooms1_def room1_def)
    then show ?thesis by blast
  qed
qed

lemma fold_upd_dom:
  "dom (fold (\<lambda>k m. m(f k \<mapsto> g k)) ks m0) = dom m0 \<union> f ` set ks"
  by (induction ks arbitrary: m0) auto

lemma fold_upd_other:
  "x \<notin> f ` set ks \<Longrightarrow> fold (\<lambda>k m. m(f k \<mapsto> g k)) ks m0 x = m0 x"
  by (induction ks arbitrary: m0) auto

lemma fold_upd_lookup:
  "inj_on f (set ks) \<Longrightarrow> k \<in> set ks \<Longrightarrow> fold (\<lambda>k m. m(f k \<mapsto> g k)) ks m0 (f k) = Some (g k)"
proof (induction ks arbitrary: m0)
  case Nil
  then show ?case by simp
next
  case (Cons a ks)
  show ?case
  proof (cases "k \<in> set ks")
    case True
    then show ?thesis
      using Cons by (simp add: inj_on_def)
  next
    case False
    then have ak: "a = k"
      using Cons.prems by simp
    have "f k \<notin> f ` set ks"
      using False Cons.prems(1) ak by (auto simp: inj_on_def)
    then have "fold (\<lambda>k m. m(f k \<mapsto> g k)) ks (m0(f k \<mapsto> g k)) (f k) = (m0(f k \<mapsto> g k)) (f k)"
      by (rule fold_upd_other)
    then show ?thesis
      unfolding ak by (simp only: fold_simps o_apply fun_upd_same)
  qed
qed

lemma Join_name:
  "(let name = UserName e;
        name = (if Authenticated current then AuthenticatedUser current else name);
        name = (if name = [] then RandUserName env else name)
    in name) = join_name env e current"
  by (auto simp: join_name_def Let_def)

lemma notifyInfoChanged_eq:
  "notifyInfoChanged outer inner r rooms
     = rooms\<lparr>writes := writes rooms @ map (\<lambda>(c, current).
               (u_write current, RoomMsg (Room_ID r) (snapshot (inner c) r c)))
               (range_map (Users r) outer)\<rparr>"
proof -
  have "fold (\<lambda>(c, u). WriteTimeout u (f c)) xs rooms
          = rooms\<lparr>writes := writes rooms @ map (\<lambda>(c, u). (u_write u, f c)) xs\<rparr>" for f xs
    by (induction xs arbitrary: rooms) (auto simp: WriteTimeout_def)
  then show ?thesis
    by (simp add: notifyInfoChanged_def)
qed

text \<open>
  C2, the claim as stated fails: when \<open>config.TurnIPProvider.Get()\<close> returns an error, a
  join by a sender that is in no room to an existing room with a streaming member returns
  that error, after the sender has been added, and opens no session.
\<close>

theorem Join_provider_failure_counterexample:
  "Streaming ex_host
   \<and> fst (Join_Execute ex_lib (ex_env (Inl ''no address'')) \<lparr>Join_ID = ''r1'', UserName = ''bob''\<rparr>
          ex_hub (ex_info ''n'')) = Error ''no address''
   \<and> map_option (\<lambda>r. (Users r ''h'', map_option Name (Users r ''n''), Sessions r))
        (Rooms (snd (Join_Execute ex_lib (ex_env (Inl ''no address''))
           \<lparr>Join_ID = ''r1'', UserName = ''bob''\<rparr> ex_hub (ex_info ''n''))) ''r1'')
     = Some (Some ex_host, Some ''bob'', [''s1'' \<mapsto> \<lparr>Host = ''h'', Client = ''c''\<rparr>])"
  by (simp add: Join_Execute_def Let_def ex_env_def ex_hub_def ex_info_def ex_room_def
      connected_at_def put_room_def notifyInfoChanged_eq ex_host_def)

text \<open>
  C2, amended. A join fails with \<open>already in a room\<close> when the membership record of the
  sender is not empty, and with \<open>room does not exist\<close> when the room id does not resolve;
  both leave the state as it is. Otherwise the sender is added to the room as a user that
  is neither owner nor streaming, named by the authenticated username if the sender is
  authenticated, else by the supplied username, and by a random name when that choice is
  empty; the membership is recorded and the room info is broadcast. If the address
  provider then fails, the join returns its error and opens no session. If it returns
  addresses, the join succeeds and opens a session with the sender as client for each
  member that streams, and no other: one session for each when the new session ids differ.
\<close>

theorem Join_contract:
  "(connected_at rooms (Client_ID current) \<noteq> [] \<longrightarrow>
      Join_Execute lib env e rooms current
        = (Error ''cannot join room, you are already in one'', rooms))
   \<and> (connected_at rooms (Client_ID current) = [] \<and> Rooms rooms (Join_ID e) = None \<longrightarrow>
      Join_Execute lib env e rooms current
        = (Error (''room with id '' @ Join_ID e @ '' does not exist''), rooms))
   \<and> (\<forall>room room1 rooms2.
        connected_at rooms (Client_ID current) = [] \<and> Rooms rooms (Join_ID e) = Some room
        \<and> room1 = room\<lparr>Users := (Users room)(Client_ID current \<mapsto> joined_user env e current)\<rparr>
        \<and> rooms2 = notifyInfoChanged (notify_outer env) (notify_inner env) room1
                     (rooms\<lparr>connected := (connected rooms)(Client_ID current \<mapsto> Room_ID room)\<rparr>)
        \<longrightarrow>
          (\<forall>err. TurnIPProvider_Get env = Inl err \<longrightarrow>
             Join_Execute lib env e rooms current = (Error err, put_room (Join_ID e) room1 rooms2))
        \<and> (\<forall>v4 v6. TurnIPProvider_Get env = Inr (v4, v6) \<and> users_by_key room
                \<and> iteration_order (Users room1) (users_order env) \<longrightarrow>
             (\<exists>srv iceH iceC.
                Join_Execute lib env e rooms current
                  = (Ok, put_room (Join_ID e)
                       (room1\<lparr>Sessions := session_entries env room1 current (users_order env)\<rparr>)
                       (rooms2\<lparr>turnServer := srv, writes := writes rooms2 @
                          session_writes env room1 current iceH iceC (users_order env)\<rparr>)))
           \<and> set (streaming_peers room1 (Client_ID current) (users_order env))
               = {k. k \<noteq> Client_ID current \<and> (\<exists>u. Users room k = Some u \<and> Streaming u)}
           \<and> dom (session_entries env room1 current (users_order env))
               = dom (Sessions room) \<union> (\<lambda>k. new_xid (draws env k)) `
                   {k. k \<noteq> Client_ID current \<and> (\<exists>u. Users room k = Some u \<and> Streaming u)}
           \<and> (inj_on (\<lambda>k. new_xid (draws env k))
                 {k. k \<noteq> Client_ID current \<and> (\<exists>u. Users room k = Some u \<and> Streaming u)} \<longrightarrow>
               (\<forall>k u. k \<noteq> Client_ID current \<and> Users room k = Some u \<and> Streaming u \<longrightarrow>
                  session_entries env room1 current (users_order env) (new_xid (draws env k))
                    = Some \<lparr>Host = k, Client = Client_ID current\<rparr>))))"
proof -
  have a: "connected_at rooms (Client_ID current) \<noteq> [] \<Longrightarrow>
      Join_Execute lib env e rooms current
        = (Error ''cannot join room, you are already in one'', rooms)"
    by (simp add: Join_Execute_def)
  have b: "connected_at rooms (Client_ID current) = [] \<Longrightarrow> Rooms rooms (Join_ID e) = None \<Longrightarrow>
      Join_Execute lib env e rooms current
        = (Error (''room with id '' @ Join_ID e @ '' does not exist''), rooms)"
    by (simp add: Join_Execute_def)
  have c: "Join_Execute lib env e rooms current = (Error err, put_room (Join_ID e) room1 rooms2)"
    if "connected_at rooms (Client_ID current) = []" and "Rooms rooms (Join_ID e) = Some room"
      and "room1 = room\<lparr>Users := (Users room)(Client_ID current \<mapsto> joined_user env e current)\<rparr>"
      and "rooms2 = notifyInfoChanged (notify_outer env) (notify_inner env) room1
                     (rooms\<lparr>connected := (connected rooms)(Client_ID current \<mapsto> Room_ID room)\<rparr>)"
      and "TurnIPProvider_Get env = Inl err"
    for room room1 rooms2 err
    using that Join_name [of e current env]
    by (simp add: Join_Execute_def joined_user_def Let_def)
  have d: "(\<exists>srv iceH iceC.
                Join_Execute lib env e rooms current
                  = (Ok, put_room (Join_ID e)
                       (room1\<lparr>Sessions := session_entries env room1 current (users_order env)\<rparr>)
                       (rooms2\<lparr>turnServer := srv, writes := writes rooms2 @
                          session_writes env room1 current iceH iceC (users_order env)\<rparr>)))"
    if "connected_at rooms (Client_ID current) = []" and "Rooms rooms (Join_ID e) = Some room"
      and r1: "room1 = room\<lparr>Users := (Users room)(Client_ID current \<mapsto> joined_user env e current)\<rparr>"
      and "rooms2 = notifyInfoChanged (notify_outer env) (notify_inner env) room1
                     (rooms\<lparr>connected := (connected rooms)(Client_ID current \<mapsto> Room_ID room)\<rparr>)"
      and "TurnIPProvider_Get env = Inr (v4, v6)" and ubk: "users_by_key room"
      and io: "iteration_order (Users room1) (users_order env)"
    for room room1 rooms2 v4 v6
  proof -
    have u1: "users_by_key room1"
      using ubk by (simp add: r1 users_by_key_def joined_user_def)
    have c1: "Users room1 (Client_ID current) = Some (joined_user env e current)"
      by (simp add: r1)
    have w1: "u_write (joined_user env e current) = Write current"
      by (simp add: joined_user_def)
    have di: "distinct (users_order env)"
      using io by (simp add: iteration_order_def)
    obtain srv iceH iceC where js:
      "join_sessions lib env current v4 v6 rooms2 room1 (users_order env) =
         Some (rooms2\<lparr>turnServer := srv,
                 writes := writes rooms2 @ session_writes env room1 current iceH iceC (users_order env)\<rparr>,
               room1\<lparr>Sessions := session_entries env room1 current (users_order env)\<rparr>)"
      using join_sessions_shape [OF u1 c1 w1 di] by blast
    have "Join_Execute lib env e rooms current
                  = (Ok, put_room (Join_ID e)
                       (room1\<lparr>Sessions := session_entries env room1 current (users_order env)\<rparr>)
                       (rooms2\<lparr>turnServer := srv, writes := writes rooms2 @
                          session_writes env room1 current iceH iceC (users_order env)\<rparr>))"
      using that(1,2,4,5) js Join_name [of e current env]
      unfolding r1
      by (simp add: Join_Execute_def joined_user_def Let_def)
    then show ?thesis by blast
  qed
  have p: "set (streaming_peers room1 (Client_ID current) (users_order env))
               = {k. k \<noteq> Client_ID current \<and> (\<exists>u. Users room k = Some u \<and> Streaming u)}"
    if r1: "room1 = room\<lparr>Users := (Users room)(Client_ID current \<mapsto> joined_user env e current)\<rparr>"
      and io: "iteration_order (Users room1) (users_order env)"
    for room room1
    using io unfolding r1
    by (auto simp: streaming_peers_def iteration_order_def split: option.splits if_splits)
  have q: "dom (session_entries env room1 current (users_order env))
               = dom (Sessions room) \<union> (\<lambda>k. new_xid (draws env k)) `
                   {k. k \<noteq> Client_ID current \<and> (\<exists>u. Users room k = Some u \<and> Streaming u)}"
    if r1: "room1 = room\<lparr>Users := (Users room)(Client_ID current \<mapsto> joined_user env e current)\<rparr>"
      and io: "iteration_order (Users room1) (users_order env)"
    for room room1
    unfolding session_entries_def fold_upd_dom p [OF r1 io] by (simp add: r1)
  have l: "session_entries env room1 current (users_order env) (new_xid (draws env k))
                    = Some \<lparr>Host = k, Client = Client_ID current\<rparr>"
    if r1: "room1 = room\<lparr>Users := (Users room)(Client_ID current \<mapsto> joined_user env e current)\<rparr>"
      and io: "iteration_order (Users room1) (users_order env)"
      and inj: "inj_on (\<lambda>k. new_xid (draws env k))
                 {k. k \<noteq> Client_ID current \<and> (\<exists>u. Users room k = Some u \<and> Streaming u)}"
      and k: "k \<noteq> Client_ID current" "Users room k = Some u" "Streaming u"
    for room room1 k u
  proof -
    have "k \<in> set (streaming_peers room1 (Client_ID current) (users_order env))"
      using k unfolding p [OF r1 io] by blast
    moreover have "inj_on (\<lambda>k. new_xid (draws env k))
                     (set (streaming_peers room1 (Client_ID current) (users_order env)))"
      using inj unfolding p [OF r1 io] .
    ultimately show ?thesis
      unfolding session_entries_def
      using fold_upd_lookup [where f = "\<lambda>k. new_xid (draws env k)"
          and g = "\<lambda>k. \<lparr>Host = k, Client = Client_ID current\<rparr>"]
      by blast
  qed
  show ?thesis
  proof (intro conjI allI impI; (elim conjE)?)
    fix room room1 rooms2 v4 v6 k u
    assume h: "connected_at rooms (Client_ID current) = []" "Rooms rooms (Join_ID e) = Some room"
      "room1 = room\<lparr>Users := (Users room)(Client_ID current \<mapsto> joined_user env e current)\<rparr>"
      "rooms2 = notifyInfoChanged (notify_outer env) (notify_inner env) room1
                 (rooms\<lparr>connected := (connected rooms)(Client_ID current \<mapsto> Room_ID room)\<rparr>)"
      and g: "TurnIPProvider_Get env = Inr (v4, v6)" "users_by_key room"
      "iteration_order (Users room1) (users_order env)"
    show "\<exists>srv iceH iceC.
                Join_Execute lib env e rooms current
                  = (Ok, put_room (Join_ID e)
                       (room1\<lparr>Sessions := session_entries env room1 current (users_order env)\<rparr>)
                       (rooms2\<lparr>turnServer := srv, writes := writes rooms2 @
                          session_writes env room1 current iceH iceC (users_order env)\<rparr>))"
      using h g by (rule d)
    show "set (streaming_peers room1 (Client_ID current) (users_order env))
               = {k. k \<noteq> Client_ID current \<and> (\<exists>u. Users room k = Some u \<and> Streaming u)}"
      using h(3) g(3) by (rule p)
    show "dom (session_entries env room1 current (users_order env))
               = dom (Sessions room) \<union> (\<lambda>k. new_xid (draws env k)) `
                   {k. k \<noteq> Client_ID current \<and> (\<exists>u. Users room k = Some u \<and> Streaming u)}"
      using h(3) g(3) by (rule q)
    assume "inj_on (\<lambda>k. new_xid (draws env k))
                 {k. k \<noteq> Client_ID current \<and> (\<exists>u. Users room k = Some u \<and> Streaming u)}"
      "k \<noteq> Client_ID current" "Users room k = Some u" "Streaming u"
    with h(3) g(3)
    show "session_entries env room1 current (users_order env) (new_xid (draws env k))
                    = Some \<lparr>Host = k, Client = Client_ID current\<rparr>"
      by (rule l)
  qed (use a b c in blast)+
qed

theorem Join_contract_witness:
  "connected_at ex_hub (Client_ID (ex_info ''n'')) = []
   \<and> Rooms ex_hub ''r1'' = Some (ex_room ConnectionTURN [''s1'' \<mapsto> \<lparr>Host = ''h'', Client = ''c''\<rparr>])
   \<and> users_by_key (ex_room ConnectionTURN [''s1'' \<mapsto> \<lparr>Host = ''h'', Client = ''c''\<rparr>])
   \<and> fst (Join_Execute ex_lib (ex_env (Inr (Some ''1.2.3.4'', None)))
          \<lparr>Join_ID = ''r1'', UserName = ''bob''\<rparr> ex_hub (ex_info ''n'')) = Ok
   \<and> connected (snd (Join_Execute ex_lib (ex_env (Inr (Some ''1.2.3.4'', None)))
          \<lparr>Join_ID = ''r1'', UserName = ''bob''\<rparr> ex_hub (ex_info ''n''))) ''n'' = Some ''r1''
   \<and> map_option (\<lambda>r. (Users r ''n'', Sessions r ''s-h'', Sessions r ''s-c''))
        (Rooms (snd (Join_Execute ex_lib (ex_env (Inr (Some ''1.2.3.4'', None)))
           \<lparr>Join_ID = ''r1'', UserName = ''bob''\<rparr> ex_hub (ex_info ''n''))) ''r1'')
     = Some (Some \<lparr>ID = ''n'', Addr = Some ''10.0.0.9'', Name = ''bob'', Streaming = False,
                   Owner = False, u_write = 9\<rparr>,
             Some \<lparr>Host = ''h'', Client = ''n''\<rparr>, None)
   \<and> Join_Execute ex_lib (ex_env (Inr (Some ''1.2.3.4'', None)))
          \<lparr>Join_ID = ''r1'', UserName = ''bob''\<rparr> ex_hub (ex_info ''h'')
     = (Error ''cannot join room, you are already in one'', ex_hub)
   \<and> Join_Execute ex_lib (ex_env (Inr (Some ''1.2.3.4'', None)))
          \<lparr>Join_ID = ''r2'', UserName = ''bob''\<rparr> ex_hub (ex_info ''n'')
     = (Error ''room with id r2 does not exist'', ex_hub)"
proof -
  define env where "env = ex_env (Inr (Some ''1.2.3.4'', None))"
  define e where "e = \<lparr>Join_ID = ''r1'', UserName = ''bob''\<rparr>"
  define room where "room = ex_room ConnectionTURN [''s1'' \<mapsto> \<lparr>Host = ''h'', Client = ''c''\<rparr>]"
  define room1 where
    "room1 = room\<lparr>Users := (Users room)(Client_ID (ex_info ''n'') \<mapsto> joined_user env e (ex_info ''n''))\<rparr>"
  define rooms2 where
    "rooms2 = notifyInfoChanged (notify_outer env) (notify_inner env) room1
                (ex_hub\<lparr>connected := (connected ex_hub)(Client_ID (ex_info ''n'') \<mapsto> Room_ID room)\<rparr>)"
  have u: "users_by_key room"
    by (auto simp: room_def users_by_key_def ex_room_def ex_host_def ex_client_def split: if_splits)
  have c: "connected_at ex_hub (Client_ID (ex_info ''n'')) = []"
    and h: "connected_at ex_hub (Client_ID (ex_info ''h'')) \<noteq> []"
    and r: "Rooms ex_hub (Join_ID e) = Some room"
    and r2: "Rooms ex_hub (Join_ID \<lparr>Join_ID = ''r2'', UserName = ''bob''\<rparr>) = None"
    and g: "TurnIPProvider_Get env = Inr (Some ''1.2.3.4'', None)"
    by (simp_all add: connected_at_def ex_hub_def ex_info_def room_def e_def env_def ex_env_def)
  have io: "iteration_order (Users room1) (users_order env)"
    by (auto simp: iteration_order_def room1_def room_def ex_room_def env_def ex_env_def ex_info_def)
  have "\<exists>srv iceH iceC. Join_Execute ex_lib env e ex_hub (ex_info ''n'')
       = (Ok, put_room (Join_ID e)
            (room1\<lparr>Sessions := session_entries env room1 (ex_info ''n'') (users_order env)\<rparr>)
            (rooms2\<lparr>turnServer := srv, writes := writes rooms2 @
               session_writes env room1 (ex_info ''n'') iceH iceC (users_order env)\<rparr>))"
  proof (rule Join_contract [of ex_hub "ex_info ''n''" ex_lib env e, THEN conjunct2,
        THEN conjunct2, rule_format, of room room1 rooms2, THEN conjunct2, rule_format,
        of "Some ''1.2.3.4''" None, THEN conjunct1])
    show "connected_at ex_hub (Client_ID (ex_info ''n'')) = [] \<and> Rooms ex_hub (Join_ID e) = Some room
      \<and> room1 = room\<lparr>Users := (Users room)(Client_ID (ex_info ''n'') \<mapsto> joined_user env e (ex_info ''n''))\<rparr>
      \<and> rooms2 = notifyInfoChanged (notify_outer env) (notify_inner env) room1
                (ex_hub\<lparr>connected := (connected ex_hub)(Client_ID (ex_info ''n'') \<mapsto> Room_ID room)\<rparr>)"
      using c r room1_def rooms2_def by (intro conjI)
    show "TurnIPProvider_Get env = Inr (Some ''1.2.3.4'', None) \<and> users_by_key room
      \<and> iteration_order (Users room1) (users_order env)"
      using g u io by (intro conjI)
  qed
  then obtain srv iceH iceC where j:
    "Join_Execute ex_lib env e ex_hub (ex_info ''n'')
       = (Ok, put_room (Join_ID e)
            (room1\<lparr>Sessions := session_entries env room1 (ex_info ''n'') (users_order env)\<rparr>)
            (rooms2\<lparr>turnServer := srv, writes := writes rooms2 @
               session_writes env room1 (ex_info ''n'') iceH iceC (users_order env)\<rparr>))"
    by (elim exE)
  have k: "Join_Execute ex_lib env e ex_hub (ex_info ''h'')
             = (Error ''cannot join room, you are already in one'', ex_hub)"
    using Join_contract [of ex_hub "ex_info ''h''" ex_lib env e, THEN conjunct1] h by simp
  have l: "Join_Execute ex_lib env \<lparr>Join_ID = ''r2'', UserName = ''bob''\<rparr> ex_hub (ex_info ''n'')
             = (Error ''room with id r2 does not exist'', ex_hub)"
    using Join_contract [of ex_hub "ex_info ''n''" ex_lib env "\<lparr>Join_ID = ''r2'', UserName = ''bob''\<rparr>",
        THEN conjunct2, THEN conjunct1] c r2 by simp
  have s: "session_entries env room1 (ex_info ''n'') (users_order env)
             = [''s1'' \<mapsto> \<lparr>Host = ''h'', Client = ''c''\<rparr>, ''s-h'' \<mapsto> \<lparr>Host = ''h'', Client = ''n''\<rparr>]"
    by (simp add: session_entries_def streaming_peers_def room1_def room_def ex_room_def
        env_def ex_env_def ex_info_def ex_host_def ex_client_def ex_draw_def)
  have m: "joined_user env e (ex_info ''n'')
             = \<lparr>ID = ''n'', Addr = Some ''10.0.0.9'', Name = ''bob'', Streaming = False,
                   Owner = False, u_write = 9\<rparr>"
    by (simp add: joined_user_def join_name_def ex_info_def e_def)
  have "fst (Join_Execute ex_lib env e ex_hub (ex_info ''n'')) = Ok
   \<and> connected (snd (Join_Execute ex_lib env e ex_hub (ex_info ''n''))) ''n'' = Some ''r1''
   \<and> map_option (\<lambda>r. (Users r ''n'', Sessions r ''s-h'', Sessions r ''s-c''))
        (Rooms (snd (Join_Execute ex_lib env e ex_hub (ex_info ''n''))) ''r1'')
     = Some (Some \<lparr>ID = ''n'', Addr = Some ''10.0.0.9'', Name = ''bob'', Streaming = False,
                   Owner = False, u_write = 9\<rparr>,
             Some \<lparr>Host = ''h'', Client = ''n''\<rparr>, None)"
    unfolding j s
    by (simp add: put_room_def rooms2_def notifyInfoChanged_eq room1_def m)
       (simp add: ex_info_def room_def ex_room_def e_def)
  then show ?thesis
    using u c r k l unfolding env_def e_def room_def by simp
qed

section \<open>Membership\<close>




lemma member_iff:
  "member r k i \<longleftrightarrow> (\<exists>room. Rooms r k = Some room \<and> Users room i \<noteq> None)"
  by (cases "Rooms r k") (simp_all add: member_def)

lemma hub_inv_shrink:
  assumes "hub_inv r" and "connected r' = connected r"
    and "\<And>k. Rooms r' k = Rooms r k \<or> Rooms r' k = None"
  shows "hub_inv r'"
proof -
  have m: "member r' k i \<Longrightarrow> member r k i" for k i
    using assms(3) [of k] unfolding member_iff by (metis option.distinct(1))
  have "\<And>k room. Rooms r' k = Some room \<Longrightarrow> Rooms r k = Some room"
    using assms(3) by (metis option.distinct(1))
  then show ?thesis
    using assms(1,2) m unfolding hub_inv_def by metis
qed













section \<open>Properties of the timeouts\<close>

text \<open>
  C9. \<open>writeTimeout\<close> returns after at most two seconds. When the channel takes the
  message before two seconds have passed, the message is put into the channel, once and
  at its end, nothing is logged, and the call returns at that moment. When the channel
  has not taken the message after two seconds, or never takes it, the channel is left as
  it was, one warning is logged, and the call returns at two seconds. The message is
  dropped in no other case, and it is not sent again.
\<close>

theorem writeTimeout_bounded:
  "snd (snd (writeTimeout accept pick ch log msg)) \<le> 2 * Second
   \<and> (\<forall>t. accept = Some t \<and> (t < 2 * Second \<or> (t = 2 * Second \<and> pick)) \<longrightarrow>
         writeTimeout accept pick ch log msg = (ch @ [msg], log, t))
   \<and> (accept = None \<or> (\<exists>t. accept = Some t \<and> (2 * Second < t \<or> (t = 2 * Second \<and> \<not> pick)))
        \<longrightarrow> writeTimeout accept pick ch log msg = (ch, log @ [write_warning], 2 * Second))
   \<and> (fst (writeTimeout accept pick ch log msg) = ch \<longrightarrow>
         accept = None \<or> (\<exists>t. accept = Some t \<and> 2 * Second \<le> t))
   \<and> (writeTimeout accept pick ch log msg = (ch @ [msg], log, the accept)
        \<and> accept \<noteq> None \<and> the accept \<le> 2 * Second
      \<or> writeTimeout accept pick ch log msg = (ch, log @ [write_warning], 2 * Second))
   \<and> count_list (fst (writeTimeout accept pick ch log msg)) msg \<le> count_list ch msg + 1
   \<and> writeTimeout None pick ch log msg = (ch, log @ [write_warning], 2 * Second)
   \<and> writeTimeout (Some (2 * Second + 1 + t')) pick ch log msg
       = (ch, log @ [write_warning], 2 * Second)
   \<and> writeTimeout (Some 0) pick ch log msg = (ch @ [msg], log, 0)"
  by (auto simp: writeTimeout_def Second_def split: option.splits)

theorem writeTimeout_bounded_witness:
  "writeTimeout (Some 1) False [''a''] [] ''m'' = ([''a'', ''m''], [], 1)
   \<and> writeTimeout (Some (2 * Second - 1)) False [''a''] [] ''m''
       = ([''a'', ''m''], [], 2 * Second - 1)
   \<and> writeTimeout (Some (2 * Second)) True [''a''] [] ''m'' = ([''a'', ''m''], [], 2 * Second)
   \<and> writeTimeout (Some (2 * Second)) False [''a''] [] ''m''
       = ([''a''], [write_warning], 2 * Second)
   \<and> writeTimeout (Some (3 * Second)) True [''a''] [] ''m''
       = ([''a''], [write_warning], 2 * Second)
   \<and> writeTimeout None True [''a''] [] ''m'' = ([''a''], [write_warning], 2 * Second)"
  using writeTimeout_bounded [of "Some 1" False "[''a'']" "[]" "''m''"]
    writeTimeout_bounded [of "Some (2 * Second - 1)" False "[''a'']" "[]" "''m''"]
    writeTimeout_bounded [of "Some (2 * Second)" True "[''a'']" "[]" "''m''"]
    writeTimeout_bounded [of "Some (2 * Second)" False "[''a'']" "[]" "''m''"]
    writeTimeout_bounded [of "Some (3 * Second)" True "[''a'']" "[]" "''m''"]
    writeTimeout_bounded [of None True "[''a'']" "[]" "''m''"]
  by (simp add: Second_def)

text \<open>
  C8, the claim as stated fails: the Hub takes the probe after three seconds and replies
  four seconds later, within five seconds of taking it, and \<open>Count\<close> still reports
  that the main loop did not respond.
\<close>

theorem Count_shared_deadline_counterexample:
  "4 * Second < 5 * Second
   \<and> Count (Some (3 * Second)) (Some (4 * Second)) 7 False False
     = ((- 1, ''main loop didn't respond to a message within 5 second''), 5 * Second)"
  by (simp add: Count_def Second_def)

text \<open>
  C8, amended. \<open>Count\<close> has one deadline, five seconds after its start, for both waits:
  it returns the count when the Hub has taken the probe and replied before the deadline;
  it returns \<open>-1\<close> with the reason \<open>didn't accept\<close> when the Hub has not taken the probe by
  then, and \<open>-1\<close> with the other reason \<open>didn't respond\<close> when the probe was taken but the
  reply has not come by the same deadline; it never returns later than the deadline.
\<close>

theorem Count_one_deadline:
  "snd (Count accept reply cnt p q) \<le> 5 * Second
   \<and> (\<forall>a d. accept = Some a \<and> reply = Some d \<and> a + d < 5 * Second \<longrightarrow>
         Count accept reply cnt p q = ((cnt, []), a + d))
   \<and> (\<forall>a. accept = Some a \<and> 5 * Second < a \<or> accept = None \<longrightarrow>
         Count accept reply cnt p q
           = ((- 1, ''main loop didn't accept a message within 5 second''), 5 * Second))
   \<and> (\<forall>a. accept = Some a \<and> a < 5 * Second
            \<and> (reply = None \<or> (\<exists>d. reply = Some d \<and> 5 * Second < a + d)) \<longrightarrow>
         Count accept reply cnt p q
           = ((- 1, ''main loop didn't respond to a message within 5 second''), 5 * Second))
   \<and> ''main loop didn't accept a message within 5 second''
       \<noteq> ''main loop didn't respond to a message within 5 second''"
  by (auto simp: Count_def Let_def Second_def split: option.splits)

theorem Count_one_deadline_witness:
  "Count (Some (1 * Second)) (Some (3 * Second)) 7 False False = ((7, []), 4 * Second)
   \<and> Count (Some (6 * Second)) (Some 0) 7 False False
       = ((- 1, ''main loop didn't accept a message within 5 second''), 5 * Second)
   \<and> Count (Some (4 * Second)) (Some (2 * Second)) 7 False False
       = ((- 1, ''main loop didn't respond to a message within 5 second''), 5 * Second)"
  using Count_one_deadline [of "Some (1 * Second)" "Some (3 * Second)" 7 False False]
    Count_one_deadline [of "Some (6 * Second)" "Some 0" 7 False False]
    Count_one_deadline [of "Some (4 * Second)" "Some (2 * Second)" 7 False False]
  by (simp add: Second_def)

end
